theory Spec2Isabelle
  imports Main "HOL-Library.Log_Nat"
begin

section \<open>Python numbers\<close>

text \<open>
  The script computes lengths with Python numbers: \<open>int\<close> (unbounded) and \<open>float\<close>
  (IEEE-754 binary64). A float is modelled by the rational it denotes. Every float
  operation is the exact operation followed by rounding to the nearest value with a
  53-bit significand, ties to even. The model covers the normal range only (no overflow,
  no subnormals); the script's values lie between \<open>0.1\<close> and \<open>1.3e7\<close>.
\<close>

definition round_half_even :: "rat \<Rightarrow> int" where
  "round_half_even q =
     (let f = \<lfloor>q\<rfloor>; d = q - of_int f
      in if d < 1/2 then f else if 1/2 < d then f + 1 else if even f then f else f + 1)"

definition floor_log2 :: "rat \<Rightarrow> int" where
  "floor_log2 q =
     (let (n, d) = quotient_of q; l = bitlen n - bitlen d
      in if 2 powi l \<le> q then l else l - 1)"

definition round_to_double :: "rat \<Rightarrow> rat" where
  "round_to_double q =
     (if q = 0 then 0
      else let a = \<bar>q\<bar>; e = floor_log2 a - 52; m = round_half_even (a / 2 powi e)
           in sgn q * of_int m * 2 powi e)"

text \<open>A float literal of the source, such as \<open>4.1\<close>, is the double nearest to it.\<close>

definition float_lit :: "rat \<Rightarrow> rat" where
  "float_lit q = round_to_double q"

text \<open>\<open>int(x)\<close> truncates towards zero.\<close>

definition py_int :: "rat \<Rightarrow> int" where
  "py_int q = (if 0 \<le> q then \<lfloor>q\<rfloor> else \<lceil>q\<rceil>)"

datatype pynum = PyInt int | PyFloat rat

fun to_rat :: "pynum \<Rightarrow> rat" where
  "to_rat (PyInt i) = of_int i"
| "to_rat (PyFloat q) = q"

fun as_float :: "pynum \<Rightarrow> rat" where
  "as_float (PyInt i) = round_to_double (of_int i)"
| "as_float (PyFloat q) = q"

fun py_add :: "pynum \<Rightarrow> pynum \<Rightarrow> pynum" where
  "py_add (PyInt a) (PyInt b) = PyInt (a + b)"
| "py_add x y = PyFloat (round_to_double (as_float x + as_float y))"

fun py_sub :: "pynum \<Rightarrow> pynum \<Rightarrow> pynum" where
  "py_sub (PyInt a) (PyInt b) = PyInt (a - b)"
| "py_sub x y = PyFloat (round_to_double (as_float x - as_float y))"

text \<open>
  True division \<open>x / y\<close>. Python raises \<open>ZeroDivisionError\<close> for a zero divisor; the
  script divides by the literal \<open>2\<close> only, and the model is meant for a non-zero divisor.
  The quotient of two ints is the correctly rounded exact quotient.
\<close>

fun py_truediv :: "pynum \<Rightarrow> pynum \<Rightarrow> pynum" where
  "py_truediv (PyInt a) (PyInt b) = PyFloat (round_to_double (of_int a / of_int b))"
| "py_truediv x y = PyFloat (round_to_double (as_float x / as_float y))"

definition py_gt :: "pynum \<Rightarrow> pynum \<Rightarrow> bool" where
  "py_gt x y = (to_rat y < to_rat x)"

definition py_min :: "pynum \<Rightarrow> pynum \<Rightarrow> pynum" where
  "py_min x y = (if to_rat y < to_rat x then y else x)"

fun py_abs :: "pynum \<Rightarrow> pynum" where
  "py_abs (PyInt a) = PyInt \<bar>a\<bar>"
| "py_abs (PyFloat q) = PyFloat \<bar>q\<bar>"

text \<open>\<open>round(x)\<close> of a float is the nearest int, ties to even.\<close>

definition py_round :: "rat \<Rightarrow> int" where
  "py_round q = round_half_even q"

section \<open>Lengths, colours, text constants\<close>

text \<open>
  \<open>pptx.util.Inches(x)\<close> is \<open>int(x * 914400)\<close> English Metric Units and
  \<open>Pt(n)\<close> is \<open>int(n * 12700)\<close>. The product of \<open>Inches\<close> is a float product, so
  \<open>Inches(4.1)\<close> is \<open>3749039\<close>, not \<open>3749040\<close>.
\<close>

definition Inches :: "rat \<Rightarrow> int" where
  "Inches inches = py_int (round_to_double (float_lit inches * 914400))"

definition Pt :: "int \<Rightarrow> int" where
  "Pt points = points * 12700"

datatype rgb = RGBColor nat nat nat

definition INK :: rgb where "INK = RGBColor 234 242 255"
definition MUTED :: rgb where "MUTED = RGBColor 190 205 230"
definition BG :: rgb where "BG = RGBColor 11 16 32"
definition C1 :: rgb where "C1 = RGBColor 110 231 255"
definition C2 :: rgb where "C2 = RGBColor 167 139 250"
definition C3 :: rgb where "C3 = RGBColor 52 211 153"
definition C4 :: rgb where "C4 = RGBColor 245 158 11"

text \<open>
  A Python \<open>str\<close> is modelled by its UTF-8 bytes. The source's non-ASCII characters
  are named: U+2022 (bullet), U+2011 (non-breaking hyphen), U+2192 (rightwards arrow),
  U+2014 (em dash); \<open>NL\<close> is the escape \<open>\n\<close>.
\<close>

definition BULLET :: string where "BULLET = [CHR 0xE2, CHR 0x80, CHR 0xA2]"
definition NBHYPHEN :: string where "NBHYPHEN = [CHR 0xE2, CHR 0x80, CHR 0x91]"
definition RARROW :: string where "RARROW = [CHR 0xE2, CHR 0x86, CHR 0x92]"
definition EMDASH :: string where "EMDASH = [CHR 0xE2, CHR 0x80, CHR 0x94]"
definition NL :: string where "NL = [CHR 0x0A]"

section \<open>The document model of the presentation library\<close>

text \<open>
  The library (python-pptx) is not part of the repository. Its objects are modelled as far
  as the script touches them: a presentation is a list of slides, a slide has a background
  fill and an ordered list of shapes, a shape is an auto shape or text box (with a text
  frame), a picture or a connector.
\<close>

record font =
  font_size :: "int option"
  font_bold :: "bool option"
  font_color :: "rgb option"

record run =
  run_text :: string
  run_font :: font

datatype par_elem = Run (the_run: run) | Br

datatype align = LEFT | CENTER | RIGHT

record para =
  content :: "par_elem list"
  alignment :: "align option"
  level :: nat
  par_font :: font

text \<open>A text frame always holds at least one paragraph: \<open>paragraphs[0]\<close> and the others.\<close>

datatype text_frame = TextFrame para "para list"

datatype fill_type = SOLID | BACKGROUND

record fill_format =
  fill_type :: "fill_type option"
  fore_color :: "rgb option"

record line_format =
  line_fill :: fill_format
  line_width :: "int option"

datatype auto_shape_type = ROUNDED_RECTANGLE | RECTANGLE

datatype box_kind = AutoShape auto_shape_type | TextBox

record box =
  box_kind :: box_kind
  sh_left :: int
  sh_top :: int
  sh_width :: int
  sh_height :: int
  box_fill :: fill_format
  box_line :: line_format
  text_frame :: text_frame

text \<open>
  An image as the library reads it from a file: its size in pixels and the resolution
  the file states.
\<close>

datatype image = Image (px_width: nat) (px_height: nat) (horz_dpi: nat) (vert_dpi: nat)

record picture =
  pic_image :: image
  pic_left :: int
  pic_top :: int
  pic_width :: int
  pic_height :: int

datatype connector_type = STRAIGHT

record connector =
  conn_type :: connector_type
  conn_x :: pynum
  conn_y :: pynum
  conn_cx :: pynum
  conn_cy :: pynum
  flipH :: bool
  flipV :: bool
  conn_line :: line_format

datatype shape = Box (the_box: box) | Picture (the_picture: picture) | Connector (the_connector: connector)

text \<open>
  \<open>calls\<close> is a history field: the slide-level library calls in the order the script
  made them. It is written by the library primitives below and read by nothing.
\<close>

datatype slide_call = BackgroundSolid | BackgroundColor rgb | AddShape

record slide =
  background :: fill_format
  shapes :: "shape list"
  calls :: "slide_call list"

datatype slide_layout =
    TitleSlide | TitleAndContent | SectionHeader | TwoContent | Comparison | TitleOnly
  | Blank | ContentWithCaption | PictureWithCaption | TitleAndVerticalText | VerticalTitleAndText

record presentation =
  slide_width :: int
  slide_height :: int
  slides :: "slide list"

section \<open>The world: file system and standard output\<close>

type_synonym path = "string list"

datatype fs_entry = ImageFile image | PptxFile presentation | OtherFile

datatype error = FileNotFoundError path | UnidentifiedImageError path | OSError path

record world =
  script_dir :: path
  files :: "path \<Rightarrow> fs_entry option"
  writable :: "path \<Rightarrow> bool"
  stdout :: "string list"

definition path_str :: "path \<Rightarrow> string" where
  "path_str p = concat (map (\<lambda>c. CHR ''/'' # c) p)"

definition bind_result :: "error + 'a \<Rightarrow> ('a \<Rightarrow> error + 'b) \<Rightarrow> error + 'b" where
  "bind_result r f = (case r of Inl e \<Rightarrow> Inl e | Inr x \<Rightarrow> f x)"

section \<open>Library primitives\<close>

subsection \<open>Fills and lines\<close>

definition no_fill :: fill_format where
  "no_fill = \<lparr>fill_type = None, fore_color = None\<rparr>"

definition no_line :: line_format where
  "no_line = \<lparr>line_fill = no_fill, line_width = None\<rparr>"

definition solid :: "fill_format \<Rightarrow> fill_format" where
  "solid f = (if fill_type f = Some SOLID then f else f\<lparr>fill_type := Some SOLID, fore_color := None\<rparr>)"

definition background_fill :: "fill_format \<Rightarrow> fill_format" where
  "background_fill f = f\<lparr>fill_type := Some BACKGROUND, fore_color := None\<rparr>"

text \<open>
  \<open>fill.fore_color.rgb = c\<close>. The library raises \<open>TypeError\<close> unless the fill is solid;
  the script calls \<open>solid()\<close> first at every use.
\<close>

definition set_fore_color :: "rgb \<Rightarrow> fill_format \<Rightarrow> fill_format" where
  "set_fore_color c f = f\<lparr>fore_color := Some c\<rparr>"

text \<open>
  \<open>fill.transparency = t\<close> and \<open>line.transparency = t\<close>. The fill and line objects of the
  library have no such property: the assignment sets an attribute of the Python object
  and the document stays as it is.
\<close>

definition set_fill_transparency :: "rat \<Rightarrow> fill_format \<Rightarrow> fill_format" where
  "set_fill_transparency t f = f"

definition set_line_transparency :: "rat \<Rightarrow> line_format \<Rightarrow> line_format" where
  "set_line_transparency t l = l"

text \<open>\<open>line.color.rgb = c\<close>: reading \<open>line.color\<close> makes the line fill solid.\<close>

definition set_line_color :: "rgb \<Rightarrow> line_format \<Rightarrow> line_format" where
  "set_line_color c l = l\<lparr>line_fill := set_fore_color c (solid (line_fill l))\<rparr>"

subsection \<open>Text\<close>

definition no_font :: font where
  "no_font = \<lparr>font_size = None, font_bold = None, font_color = None\<rparr>"

definition new_run :: run where
  "new_run = \<lparr>run_text = [], run_font = no_font\<rparr>"

definition new_paragraph :: "align option \<Rightarrow> para" where
  "new_paragraph a = \<lparr>content = [], alignment = a, level = 0, par_font = no_font\<rparr>"

fun paragraphs :: "text_frame \<Rightarrow> para list" where
  "paragraphs (TextFrame p ps) = p # ps"

text \<open>\<open>paragraph.clear()\<close> removes runs and line breaks and keeps the paragraph's properties.\<close>

definition par_clear :: "para \<Rightarrow> para" where
  "par_clear p = p\<lparr>content := []\<rparr>"

text \<open>\<open>text_frame.clear()\<close> removes all paragraphs but the first and clears that one.\<close>

fun tf_clear :: "text_frame \<Rightarrow> text_frame" where
  "tf_clear (TextFrame p ps) = TextFrame (par_clear p) []"

text \<open>\<open>text_frame.add_paragraph()\<close>: the new paragraph's index, and the frame.\<close>

fun add_paragraph :: "text_frame \<Rightarrow> nat \<times> text_frame" where
  "add_paragraph (TextFrame p ps) = (Suc (length ps), TextFrame p (ps @ [new_paragraph None]))"

fun upd_par :: "nat \<Rightarrow> (para \<Rightarrow> para) \<Rightarrow> text_frame \<Rightarrow> text_frame" where
  "upd_par 0 f (TextFrame p ps) = TextFrame (f p) ps"
| "upd_par (Suc i) f (TextFrame p ps) = TextFrame p (ps[i := f (ps ! i)])"

definition add_run :: "para \<Rightarrow> nat \<times> para" where
  "add_run p = (length (content p), p\<lparr>content := content p @ [Run new_run]\<rparr>)"

definition upd_run :: "nat \<Rightarrow> (run \<Rightarrow> run) \<Rightarrow> para \<Rightarrow> para" where
  "upd_run i f p =
     p\<lparr>content := (content p)[i := (case content p ! i of Run r \<Rightarrow> Run (f r) | Br \<Rightarrow> Br)]\<rparr>"

text \<open>
  Text assigned to a run is stored with its control characters escaped: every character
  below \<open>0x20\<close> other than tab and line feed becomes \<open>_xHHHH_\<close>, its code in four
  hexadecimal digits.
\<close>

definition is_control :: "char \<Rightarrow> bool" where
  "is_control c = ((of_char c :: nat) < 32 \<and> c \<noteq> CHR 0x09 \<and> c \<noteq> CHR 0x0A)"

definition hex_digit :: "nat \<Rightarrow> char" where
  "hex_digit n = ''0123456789ABCDEF'' ! (n mod 16)"

definition escape_char :: "char \<Rightarrow> string" where
  "escape_char c =
     (if is_control c
      then ''_x00'' @ [hex_digit (of_char c div 16), hex_digit (of_char c)] @ ''_''
      else [c])"

definition escape :: "string \<Rightarrow> string" where
  "escape t = concat (map escape_char t)"

text \<open>
  \<open>paragraph.text = t\<close> clears the paragraph and appends \<open>t\<close>: the text is split at
  every line feed and vertical tab, a line break is put between the pieces and a run is
  added for every non-empty piece.
\<close>

fun split_breaks :: "string \<Rightarrow> string list" where
  "split_breaks [] = [[]]"
| "split_breaks (c # cs) =
     (if c = CHR 0x0A \<or> c = CHR 0x0B then [] # split_breaks cs
      else (case split_breaks cs of [] \<Rightarrow> [[c]] | x # xs \<Rightarrow> (c # x) # xs))"

fun append_pieces :: "bool \<Rightarrow> string list \<Rightarrow> par_elem list" where
  "append_pieces first [] = []"
| "append_pieces first (r_str # rest) =
     (if first then [] else [Br])
     @ (if r_str \<noteq> [] then [Run (new_run\<lparr>run_text := escape r_str\<rparr>)] else [])
     @ append_pieces False rest"

definition set_par_text :: "string \<Rightarrow> para \<Rightarrow> para" where
  "set_par_text t p = (let p = par_clear p in p\<lparr>content := content p @ append_pieces True (split_breaks t)\<rparr>)"

text \<open>Reading \<open>paragraph.text\<close> joins the runs' texts, a line break reading as a vertical tab.\<close>

fun elem_text :: "par_elem \<Rightarrow> string" where
  "elem_text (Run r) = run_text r"
| "elem_text Br = [CHR 0x0B]"

definition par_text :: "para \<Rightarrow> string" where
  "par_text p = concat (map elem_text (content p))"

subsection \<open>Shapes\<close>

text \<open>
  A new auto shape has one empty, centred paragraph and no fill of its own; a new text box
  has one empty paragraph and an explicit "no fill".
  Every \<open>add_\<close> primitive appends the shape to the slide and returns its position in the
  shape list, which stands for the reference Python returns.
\<close>

definition new_box :: "box_kind \<Rightarrow> int \<Rightarrow> int \<Rightarrow> int \<Rightarrow> int \<Rightarrow> box" where
  "new_box k x y w h =
     \<lparr>box_kind = k, sh_left = x, sh_top = y, sh_width = w, sh_height = h,
      box_fill = (case k of AutoShape _ \<Rightarrow> no_fill | TextBox \<Rightarrow> background_fill no_fill),
      box_line = no_line,
      text_frame = TextFrame (new_paragraph (case k of AutoShape _ \<Rightarrow> Some CENTER | TextBox \<Rightarrow> None)) []\<rparr>"

definition append_shape :: "slide \<Rightarrow> shape \<Rightarrow> nat \<times> slide" where
  "append_shape s sh = (length (shapes s), s\<lparr>shapes := shapes s @ [sh], calls := calls s @ [AddShape]\<rparr>)"

definition add_shape :: "slide \<Rightarrow> auto_shape_type \<Rightarrow> int \<Rightarrow> int \<Rightarrow> int \<Rightarrow> int \<Rightarrow> nat \<times> slide" where
  "add_shape s t x y w h = append_shape s (Box (new_box (AutoShape t) x y w h))"

definition add_textbox :: "slide \<Rightarrow> int \<Rightarrow> int \<Rightarrow> int \<Rightarrow> int \<Rightarrow> nat \<times> slide" where
  "add_textbox s x y w h = append_shape s (Box (new_box TextBox x y w h))"

text \<open>
  \<open>add_connector\<close> stores the bounding box of the two end points and two flip flags.
  The numbers are written as Python prints them, an int by its digits and a float with
  its fraction, so the document holds the numbers themselves.
\<close>

definition add_connector ::
  "slide \<Rightarrow> connector_type \<Rightarrow> pynum \<Rightarrow> pynum \<Rightarrow> pynum \<Rightarrow> pynum \<Rightarrow> nat \<times> slide" where
  "add_connector s t begin_x begin_y end_x end_y =
     (let fH = py_gt begin_x end_x; fV = py_gt begin_y end_y;
          x = py_min begin_x end_x; y = py_min begin_y end_y;
          cx = py_abs (py_sub end_x begin_x); cy = py_abs (py_sub end_y begin_y)
      in append_shape s (Connector
           \<lparr>conn_type = t, conn_x = x, conn_y = y, conn_cx = cx, conn_cy = cy,
            flipH = fH, flipV = fV, conn_line = no_line\<rparr>))"

text \<open>
  The size of a picture. The native size of an image is its pixel size at its resolution,
  in EMU; a resolution outside 1 to 2048 dpi is read as 72 dpi. A width or height the
  caller gives is kept; where only one of them is given (\<open>None\<close> and \<open>0\<close> count as not
  given) the other is scaled from the native size, in float arithmetic.
\<close>

definition normalize_dpi :: "nat \<Rightarrow> int" where
  "normalize_dpi d = (if d < 1 \<or> 2048 < d then 72 else int d)"

definition native_size :: "image \<Rightarrow> int \<times> int" where
  "native_size img =
     (py_int (round_to_double (of_int (914400 * int (px_width img)) / of_int (normalize_dpi (horz_dpi img)))),
      py_int (round_to_double (of_int (914400 * int (px_height img)) / of_int (normalize_dpi (vert_dpi img)))))"

definition given :: "int option \<Rightarrow> bool" where
  "given v = (v \<noteq> None \<and> v \<noteq> Some 0)"

definition scale :: "image \<Rightarrow> int option \<Rightarrow> int option \<Rightarrow> int \<times> int" where
  "scale img scaled_cx scaled_cy =
     (let (image_cx, image_cy) = native_size img
      in if given scaled_cx \<and> given scaled_cy then (the scaled_cx, the scaled_cy)
         else if given scaled_cx then
           (let scaling_factor =
                  round_to_double (as_float (PyInt (the scaled_cx)) / as_float (PyInt image_cx))
            in (the scaled_cx, py_round (round_to_double (as_float (PyInt image_cy) * scaling_factor))))
         else if given scaled_cy then
           (let scaling_factor =
                  round_to_double (as_float (PyInt (the scaled_cy)) / as_float (PyInt image_cy))
            in (py_round (round_to_double (as_float (PyInt image_cx) * scaling_factor)), the scaled_cy))
         else (image_cx, image_cy))"

text \<open>
  \<open>add_picture\<close> opens the image file: a missing file raises \<open>FileNotFoundError\<close>, a file
  that is not an image is refused. An image has at least one pixel in each direction; a
  file that states otherwise is refused like any other file that is not an image.
\<close>

definition add_picture ::
  "(path \<Rightarrow> fs_entry option) \<Rightarrow> slide \<Rightarrow> path \<Rightarrow> int \<Rightarrow> int \<Rightarrow> int option \<Rightarrow> int option \<Rightarrow> error + slide" where
  "add_picture fs s image_file x y w h =
     (case fs image_file of
        None \<Rightarrow> Inl (FileNotFoundError image_file)
      | Some (ImageFile img) \<Rightarrow>
          (if 0 < px_width img \<and> 0 < px_height img
           then Inr (snd (append_shape s (Picture
                  \<lparr>pic_image = img, pic_left = x, pic_top = y,
                   pic_width = fst (scale img w h), pic_height = snd (scale img w h)\<rparr>)))
           else Inl (UnidentifiedImageError image_file))
      | Some _ \<Rightarrow> Inl (UnidentifiedImageError image_file))"

text \<open>Updating the object behind a reference: the box at a position of the shape list.\<close>

definition upd_box :: "nat \<Rightarrow> (box \<Rightarrow> box) \<Rightarrow> slide \<Rightarrow> slide" where
  "upd_box h f s =
     s\<lparr>shapes := (shapes s)[h := (case shapes s ! h of Box b \<Rightarrow> Box (f b) | sh \<Rightarrow> sh)]\<rparr>"

definition upd_connector :: "nat \<Rightarrow> (connector \<Rightarrow> connector) \<Rightarrow> slide \<Rightarrow> slide" where
  "upd_connector h f s =
     s\<lparr>shapes := (shapes s)[h := (case shapes s ! h of Connector c \<Rightarrow> Connector (f c) | sh \<Rightarrow> sh)]\<rparr>"

definition box_at :: "slide \<Rightarrow> nat \<Rightarrow> box" where
  "box_at s h = the_box (shapes s ! h)"

text \<open>\<open>p.add_run()\<close> for paragraph \<open>p\<close> of the box at \<open>h\<close>: the run's index and the slide.\<close>

definition add_run_in :: "nat \<Rightarrow> nat \<Rightarrow> slide \<Rightarrow> nat \<times> slide" where
  "add_run_in h p s =
     (length (content (paragraphs (text_frame (box_at s h)) ! p)),
      upd_box h (text_frame_update (upd_par p (\<lambda>q. snd (add_run q)))) s)"

definition add_paragraph_in :: "nat \<Rightarrow> slide \<Rightarrow> nat \<times> slide" where
  "add_paragraph_in h s =
     (fst (add_paragraph (text_frame (box_at s h))),
      upd_box h (text_frame_update (\<lambda>tf. snd (add_paragraph tf))) s)"

subsection \<open>Presentation\<close>

text \<open>
  \<open>Presentation()\<close> opens the library's default template: 4:3 slide size, eleven layouts,
  no slides. A slide made from the blank layout starts without shapes; the other layouts
  are not used by the script and not modelled.
\<close>

definition Presentation :: presentation where
  "Presentation = \<lparr>slide_width = 9144000, slide_height = 6858000, slides = []\<rparr>"

definition slide_layouts :: "presentation \<Rightarrow> slide_layout list" where
  "slide_layouts prs =
     [TitleSlide, TitleAndContent, SectionHeader, TwoContent, Comparison, TitleOnly, Blank,
      ContentWithCaption, PictureWithCaption, TitleAndVerticalText, VerticalTitleAndText]"

definition new_slide :: slide where
  "new_slide = \<lparr>background = no_fill, shapes = [], calls = []\<rparr>"

fun add_slide :: "presentation \<Rightarrow> slide_layout \<Rightarrow> nat \<times> presentation" where
  "add_slide prs Blank = (length (slides prs), prs\<lparr>slides := slides prs @ [new_slide]\<rparr>)"

definition background_solid :: "slide \<Rightarrow> slide" where
  "background_solid s = s\<lparr>background := solid (background s), calls := calls s @ [BackgroundSolid]\<rparr>"

definition background_rgb :: "slide \<Rightarrow> rgb \<Rightarrow> slide" where
  "background_rgb s c =
     s\<lparr>background := set_fore_color c (background s), calls := calls s @ [BackgroundColor c]\<rparr>"

text \<open>
  \<open>s = prs.slides.add_slide(blank)\<close> followed by the statements that work on \<open>s\<close>: the
  new slide is the last of the slide list, and the statements change it in place.
\<close>

definition on_slide_err :: "nat \<Rightarrow> presentation \<Rightarrow> (slide \<Rightarrow> error + slide) \<Rightarrow> error + presentation" where
  "on_slide_err s prs f =
     (case f (slides prs ! s) of
        Inl e \<Rightarrow> Inl e
      | Inr sl \<Rightarrow> Inr (prs\<lparr>slides := (slides prs)[s := sl]\<rparr>))"

definition with_new_slide ::
  "presentation \<Rightarrow> slide_layout \<Rightarrow> (slide \<Rightarrow> error + slide) \<Rightarrow> error + presentation" where
  "with_new_slide prs layout body = (let (s, prs) = add_slide prs layout in on_slide_err s prs body)"

text \<open>\<open>prs.save(path)\<close> writes the document, or fails where the file cannot be created.\<close>

definition save :: "presentation \<Rightarrow> path \<Rightarrow> world \<Rightarrow> (error + unit) \<times> world" where
  "save prs p w =
     (if writable w p then (Inr (), w\<lparr>files := (files w)(p \<mapsto> PptxFile prs)\<rparr>)
      else (Inl (OSError p), w))"

definition print :: "string \<Rightarrow> world \<Rightarrow> (error + unit) \<times> world" where
  "print line w = (Inr (), w\<lparr>stdout := stdout w @ [line]\<rparr>)"

section \<open>The script's helper functions\<close>

text \<open>
  Each statement of the source that sets an attribute through a reference is one update
  of the slide at the position that stands for the reference. The functions that return a
  shape return it as it is at that moment; the script only reads its geometry afterwards.
\<close>

definition upd_tf :: "nat \<Rightarrow> (text_frame \<Rightarrow> text_frame) \<Rightarrow> slide \<Rightarrow> slide" where
  "upd_tf h f s = upd_box h (text_frame_update f) s"

definition upd_par_in :: "nat \<Rightarrow> nat \<Rightarrow> (para \<Rightarrow> para) \<Rightarrow> slide \<Rightarrow> slide" where
  "upd_par_in h p f s = upd_box h (text_frame_update (upd_par p f)) s"

definition upd_run_in :: "nat \<Rightarrow> nat \<Rightarrow> nat \<Rightarrow> (run \<Rightarrow> run) \<Rightarrow> slide \<Rightarrow> slide" where
  "upd_run_in h p r f s = upd_box h (text_frame_update (upd_par p (upd_run r f))) s"

text \<open>\<open>_set_text(run, text, size, bold, color)\<close>; all callers pass every argument.\<close>

definition set_text :: "run \<Rightarrow> string \<Rightarrow> int \<Rightarrow> bool \<Rightarrow> rgb \<Rightarrow> run" where
  "set_text run t sz b c =
     (let run = run\<lparr>run_text := escape t\<rparr>;
          run = run\<lparr>run_font := (run_font run)\<lparr>font_size := Some (Pt sz)\<rparr>\<rparr>;
          run = run\<lparr>run_font := (run_font run)\<lparr>font_bold := Some b\<rparr>\<rparr>;
          run = run\<lparr>run_font := (run_font run)\<lparr>font_color := Some c\<rparr>\<rparr>
      in run)"

text \<open>\<open>if subtitle:\<close> holds for a string that is neither \<open>None\<close> nor empty.\<close>

definition add_title :: "slide \<Rightarrow> string \<Rightarrow> string option \<Rightarrow> slide" where
  "add_title slide title subtitle =
     (let (box, slide) = add_shape slide ROUNDED_RECTANGLE (Inches 0.7) (Inches 0.6) (Inches 12.0) (Inches 1.4);
          slide = upd_box box (box_fill_update solid) slide;
          slide = upd_box box (box_fill_update (set_fore_color (RGBColor 2 6 23))) slide;
          slide = upd_box box (box_fill_update (set_fill_transparency (float_lit 0.25))) slide;
          slide = upd_box box (box_line_update (set_line_color (RGBColor 255 255 255))) slide;
          slide = upd_box box (box_line_update (set_line_transparency (float_lit 0.85))) slide;
          slide = upd_tf box tf_clear slide;
          p = 0;
          slide = upd_par_in box p (alignment_update (\<lambda>_. Some LEFT)) slide;
          (r, slide) = add_run_in box p slide;
          slide = upd_run_in box p r (\<lambda>run. set_text run title 34 True INK) slide
      in if subtitle \<noteq> None \<and> subtitle \<noteq> Some [] then
           (let (p2, slide) = add_paragraph_in box slide;
                slide = upd_par_in box p2 (alignment_update (\<lambda>_. Some LEFT)) slide;
                (r2, slide) = add_run_in box p2 slide;
                slide = upd_run_in box p2 r2 (\<lambda>run. set_text run (the subtitle) 16 False MUTED) slide
            in slide)
         else slide)"

definition add_footer :: "slide \<Rightarrow> string \<Rightarrow> slide" where
  "add_footer slide t =
     (let (box, slide) = add_textbox slide (Inches 0.7) (Inches 7.05) (Inches 12.0) (Inches 0.3);
          slide = upd_tf box tf_clear slide;
          p = 0;
          slide = upd_par_in box p (alignment_update (\<lambda>_. Some RIGHT)) slide;
          (r, slide) = add_run_in box p slide;
          slide = upd_run_in box p r (\<lambda>run. set_text run t 10 False MUTED) slide
      in slide)"

text \<open>
  The loop of \<open>add_bullets\<close>, from index \<open>i\<close> on: the first item goes to
  \<open>paragraphs[0]\<close>, every later one to a new paragraph.
\<close>

fun bullets_loop :: "nat \<Rightarrow> nat \<Rightarrow> string list \<Rightarrow> int \<Rightarrow> slide \<Rightarrow> slide" where
  "bullets_loop box i [] font_sz slide = slide"
| "bullets_loop box i (it # items) font_sz slide =
     (let (p, slide) = (if i = 0 then (0, slide) else add_paragraph_in box slide);
          slide = upd_par_in box p (set_par_text it) slide;
          slide = upd_par_in box p (level_update (\<lambda>_. 0)) slide;
          slide = upd_par_in box p (par_font_update (font_size_update (\<lambda>_. Some (Pt font_sz)))) slide;
          slide = upd_par_in box p (par_font_update (font_color_update (\<lambda>_. Some INK))) slide
      in bullets_loop box (Suc i) items font_sz slide)"

definition add_bullets ::
  "slide \<Rightarrow> int \<Rightarrow> int \<Rightarrow> int \<Rightarrow> int \<Rightarrow> string list \<Rightarrow> int \<Rightarrow> box \<times> slide" where
  "add_bullets slide x y w h items font_sz =
     (let (box, slide) = add_textbox slide x y w h;
          slide = upd_tf box tf_clear slide;
          slide = bullets_loop box 0 items font_sz slide
      in (box_at slide box, slide))"

definition kpi_card ::
  "slide \<Rightarrow> int \<Rightarrow> int \<Rightarrow> int \<Rightarrow> int \<Rightarrow> string \<Rightarrow> string \<Rightarrow> rgb \<Rightarrow> slide" where
  "kpi_card slide x y w h heading val accent =
     (let (card, slide) = add_shape slide ROUNDED_RECTANGLE x y w h;
          slide = upd_box card (box_fill_update solid) slide;
          slide = upd_box card (box_fill_update (set_fore_color (RGBColor 2 6 23))) slide;
          slide = upd_box card (box_fill_update (set_fill_transparency (float_lit 0.18))) slide;
          slide = upd_box card (box_line_update (set_line_color (RGBColor 255 255 255))) slide;
          slide = upd_box card (box_line_update (set_line_transparency (float_lit 0.86))) slide;
          (bar, slide) = add_shape slide RECTANGLE x y (Inches 0.10) h;
          slide = upd_box bar (box_fill_update solid) slide;
          slide = upd_box bar (box_fill_update (set_fore_color accent)) slide;
          slide = upd_box bar (box_line_update (line_fill_update background_fill)) slide;
          slide = upd_tf card tf_clear slide;
          p1 = 0;
          (r1, slide) = add_run_in card p1 slide;
          slide = upd_run_in card p1 r1 (\<lambda>run. set_text run heading 12 False MUTED) slide;
          (p2, slide) = add_paragraph_in card slide;
          (r2, slide) = add_run_in card p2 slide;
          slide = upd_run_in card p2 r2 (\<lambda>run. set_text run val 18 True INK) slide
      in slide)"

definition arrow ::
  "slide \<Rightarrow> pynum \<Rightarrow> pynum \<Rightarrow> pynum \<Rightarrow> pynum \<Rightarrow> rgb \<Rightarrow> connector \<times> slide" where
  "arrow slide x1 y1 x2 y2 color =
     (let (conn, slide) = add_connector slide STRAIGHT x1 y1 x2 y2;
          slide = upd_connector conn (conn_line_update (set_line_color color)) slide;
          slide = upd_connector conn (conn_line_update (line_width_update (\<lambda>_. Some (Pt 2)))) slide
      in (the_connector (shapes slide ! conn), slide))"

definition flow_box ::
  "slide \<Rightarrow> int \<Rightarrow> int \<Rightarrow> int \<Rightarrow> int \<Rightarrow> string \<Rightarrow> rgb \<Rightarrow> box \<times> slide" where
  "flow_box slide x y w h t accent =
     (let (box, slide) = add_shape slide ROUNDED_RECTANGLE x y w h;
          slide = upd_box box (box_fill_update solid) slide;
          slide = upd_box box (box_fill_update (set_fore_color (RGBColor 2 6 23))) slide;
          slide = upd_box box (box_fill_update (set_fill_transparency (float_lit 0.18))) slide;
          slide = upd_box box (box_line_update (set_line_color accent)) slide;
          slide = upd_box box (box_line_update (line_width_update (\<lambda>_. Some (Pt 2)))) slide;
          slide = upd_tf box tf_clear slide;
          p = 0;
          slide = upd_par_in box p (alignment_update (\<lambda>_. Some CENTER)) slide;
          (r, slide) = add_run_in box p slide;
          slide = upd_run_in box p r (\<lambda>run. set_text run t 16 True INK) slide
      in (box_at slide box, slide))"

text \<open>The geometry attributes of a returned shape, as Python ints.\<close>

definition left_of :: "box \<Rightarrow> pynum" where "left_of b = PyInt (sh_left b)"
definition top_of :: "box \<Rightarrow> pynum" where "top_of b = PyInt (sh_top b)"
definition width_of :: "box \<Rightarrow> pynum" where "width_of b = PyInt (sh_width b)"
definition height_of :: "box \<Rightarrow> pynum" where "height_of b = PyInt (sh_height b)"

section \<open>The script: \<open>make\<close>\<close>

text \<open>
  \<open>ROOT\<close> is the directory of the script file. A path is the list of its components.
\<close>

definition ROOT :: "world \<Rightarrow> path" where
  "ROOT w = script_dir w"

definition ASSETS :: "world \<Rightarrow> path" where
  "ASSETS w = ROOT w @ [''assets'']"

definition OUT :: "world \<Rightarrow> path" where
  "OUT w = ROOT w @ [''Selenium_Automation_Framework_AI_Healing.pptx'']"

text \<open>
  The body of \<open>make\<close> is cut at its ten \<open># --- Slide n ---\<close> comments. Each part is
  the statements on the slide \<open>s\<close> that \<open>add_slide\<close> has just returned; a part that loads
  a picture can raise. The source's variable \<open>end\<close> is written \<open>end_box\<close>.
\<close>

text \<open>Slide 1: Cover\<close>

definition slide_1 :: "(path \<Rightarrow> fs_entry option) \<Rightarrow> path \<Rightarrow> presentation \<Rightarrow> slide \<Rightarrow> error + slide" where
  "slide_1 fs cover prs s =
     (let s = background_solid s;
          s = background_rgb s BG
      in bind_result (add_picture fs s cover (Inches 0) (Inches 0) (Some (slide_width prs)) (Some (slide_height prs)))
          (\<lambda>s.
           (let s = add_title s ''Selenium Automation Framework'' (Some (''Java 17 '' @ BULLET @ '' TestNG '' @ BULLET @ '' Smart Actions '' @ BULLET @ '' AI Auto'' @ NBHYPHEN @ ''Healing (Optional)''));
                s = add_footer s (''Automation Assignment '' @ BULLET @ '' Framework Demo'')
            in Inr s)))"

text \<open>Slide 2: What it delivers\<close>

definition slide_2 :: "(path \<Rightarrow> fs_entry option) \<Rightarrow> path \<Rightarrow> slide \<Rightarrow> error + slide" where
  "slide_2 fs arch s =
     (let s = background_solid s;
          s = background_rgb s BG;
          s = add_title s ''What this framework delivers'' (Some (''Maintainability '' @ BULLET @ '' Stability '' @ BULLET @ '' Resilience''));
          s = kpi_card s (Inches 0.9) (Inches 2.2) (Inches 3.9) (Inches 1.2) ''Stability'' ''Explicit waits'' C1;
          s = kpi_card s (Inches 0.9) (Inches 3.55) (Inches 3.9) (Inches 1.2) ''Maintainability'' ''POM + annotations'' C2;
          s = kpi_card s (Inches 0.9) (Inches 4.9) (Inches 3.9) (Inches 1.2) ''Resilience'' ''AI healing + audit'' C3;
          (_, s) = add_bullets s (Inches 0.9) (Inches 6.2) (Inches 6.2) (Inches 0.7)
              [''Low setup with Selenium Manager'',
               ''Centralized waits + smart actions'',
               ''Safety: redaction, cache, validation'']
              16
      in bind_result (add_picture fs s arch (Inches 7.1) (Inches 2.2) (Some (Inches 5.5)) None)
          (\<lambda>s.
           (let s = add_footer s ''Slide 2/10''
            in Inr s)))"

text \<open>Slide 3: Problem statement (diagram)\<close>

definition slide_3 :: "slide \<Rightarrow> error + slide" where
  "slide_3 s =
     (let s = background_solid s;
          s = background_rgb s BG;
          s = add_title s ''The problem we solve'' (Some ''UI changes cause fragile selectors and maintenance cost'');
          (b1, s) = flow_box s (Inches 1.0) (Inches 2.7) (Inches 2.6) (Inches 0.9) ''UI Changes'' C4;
          (b2, s) = flow_box s (Inches 4.0) (Inches 2.7) (Inches 2.6) (Inches 0.9) ''Broken Selectors'' C2;
          (b3, s) = flow_box s (Inches 7.0) (Inches 2.7) (Inches 2.6) (Inches 0.9) ''Test Failures'' C1;
          (b4, s) = flow_box s (Inches 10.0) (Inches 2.7) (Inches 2.6) (Inches 0.9) ''Maintenance Cost'' C3;
          (_, s) = arrow s
              (py_add (left_of b1) (width_of b1))
              (py_add (top_of b1) (py_truediv (height_of b1) (PyInt 2)))
              (left_of b2)
              (py_add (top_of b2) (py_truediv (height_of b2) (PyInt 2))) MUTED;
          (_, s) = arrow s
              (py_add (left_of b2) (width_of b2))
              (py_add (top_of b2) (py_truediv (height_of b2) (PyInt 2)))
              (left_of b3)
              (py_add (top_of b3) (py_truediv (height_of b3) (PyInt 2))) MUTED;
          (_, s) = arrow s
              (py_add (left_of b3) (width_of b3))
              (py_add (top_of b3) (py_truediv (height_of b3) (PyInt 2)))
              (left_of b4)
              (py_add (top_of b4) (py_truediv (height_of b4) (PyInt 2))) MUTED;
          (_, s) = add_bullets s (Inches 1.0) (Inches 4.3) (Inches 11.6) (Inches 2.6)
              [''Flaky runs due to timing and dynamic DOM'',
               ''Selector churn during UI releases'',
               ''Boilerplate waits and locators repeated across tests'',
               ''Limited traceability on what changed and why'']
              18;
          s = add_footer s ''Slide 3/10''
      in Inr s)"

text \<open>Slide 4: Architecture\<close>

definition slide_4 :: "(path \<Rightarrow> fs_entry option) \<Rightarrow> path \<Rightarrow> slide \<Rightarrow> error + slide" where
  "slide_4 fs arch s =
     (let s = background_solid s;
          s = background_rgb s BG;
          s = add_title s ''Architecture overview'' (Some ''Layered design with clear responsibilities'')
      in bind_result (add_picture fs s arch (Inches 0.9) (Inches 2.2) (Some (Inches 6.1)) None)
          (\<lambda>s.
           (let (_, s) = add_bullets s (Inches 7.3) (Inches 2.3) (Inches 5.1) (Inches 4.8)
              [''Tests (TestNG): call page actions'',
               ''Pages: business actions + @SeleniumSelector'',
               ''Core: waits + smart actions + element wiring'',
               ''AI (optional): healing with audit log'',
               ''Utilities: JSON + HTML cleaning'']
              18;
                s = add_footer s ''Slide 4/10''
            in Inr s)))"

text \<open>Slide 5: Core building blocks\<close>

definition slide_5 :: "slide \<Rightarrow> error + slide" where
  "slide_5 s =
     (let s = background_solid s;
          s = background_rgb s BG;
          s = add_title s ''Core implementation'' (Some ''How the framework works under the hood'');
          (cA, s) = flow_box s (Inches 1.0) (Inches 2.4) (Inches 3.7) (Inches 1.0) (''SeleniumFactory'' @ NL @ ''(WebDriver lifecycle)'') C1;
          (cB, s) = flow_box s (Inches 1.0) (Inches 3.8) (Inches 3.7) (Inches 1.0) (''BasePage'' @ NL @ ''(waits + smart actions)'') C2;
          (cC, s) = flow_box s (Inches 5.2) (Inches 2.4) (Inches 3.7) (Inches 1.0) (''ElementInitializer'' @ NL @ ''(reflection wiring)'') C3;
          (cD, s) = flow_box s (Inches 5.2) (Inches 3.8) (Inches 3.7) (Inches 1.0) (''SmartElement'' @ NL @ ''(By + driver)'') C4;
          (_, s) = arrow s
              (py_add (left_of cA) (width_of cA))
              (py_add (top_of cA) (py_truediv (height_of cA) (PyInt 2)))
              (left_of cC)
              (py_add (top_of cC) (py_truediv (height_of cC) (PyInt 2))) MUTED;
          (_, s) = arrow s
              (py_add (left_of cB) (width_of cB))
              (py_add (top_of cB) (py_truediv (height_of cB) (PyInt 2)))
              (left_of cD)
              (py_add (top_of cD) (py_truediv (height_of cD) (PyInt 2))) MUTED;
          (_, s) = add_bullets s (Inches 9.3) (Inches 2.4) (Inches 3.9) (Inches 4.2)
              [''Explicit waits (10s default)'',
               ''CSS selectors by default'',
               ''XPath via prefix: xpath=...'',
               ''Minimal boilerplate in tests'']
              18;
          s = add_footer s ''Slide 5/10''
      in Inr s)"

text \<open>Slide 6: Smart actions\<close>

definition slide_6 :: "slide \<Rightarrow> error + slide" where
  "slide_6 s =
     (let s = background_solid s;
          s = background_rgb s BG;
          s = add_title s ''Smart Actions'' (Some ''Stable by default; healing only on failure'');
          (_, s) = add_bullets s (Inches 0.9) (Inches 2.2) (Inches 6.3) (Inches 4.8)
              [''smartClick(selector): wait '' @ RARROW @ '' click'',
               ''smartFill(selector, value): wait '' @ RARROW @ '' clear '' @ RARROW @ '' type'',
               ''On TimeoutException '' @ RARROW @ '' healing attempt (1 retry)'',
               ''StaleElementReferenceException '' @ RARROW @ '' retry once (no AI)'']
              20;
          (step1, s) = flow_box s (Inches 7.4) (Inches 2.3) (Inches 5.2) (Inches 0.75) (''Parse selector '' @ RARROW @ '' By'') C1;
          (step2, s) = flow_box s (Inches 7.4) (Inches 3.2) (Inches 5.2) (Inches 0.75) ''Explicit wait (visibility/clickable)'' C2;
          (step3, s) = flow_box s (Inches 7.4) (Inches 4.1) (Inches 5.2) (Inches 0.75) ''Perform action (click/type)'' C3;
          (step4, s) = flow_box s (Inches 7.4) (Inches 5.0) (Inches 5.2) (Inches 0.75) (''If timeout '' @ RARROW @ '' AI heal '' @ RARROW @ '' validate '' @ RARROW @ '' retry once'') C4;
          (_, s) = arrow s
              (py_add (left_of step1) (py_truediv (width_of step1) (PyInt 2)))
              (py_add (top_of step1) (height_of step1))
              (py_add (left_of step2) (py_truediv (width_of step2) (PyInt 2)))
              (top_of step2) MUTED;
          (_, s) = arrow s
              (py_add (left_of step2) (py_truediv (width_of step2) (PyInt 2)))
              (py_add (top_of step2) (height_of step2))
              (py_add (left_of step3) (py_truediv (width_of step3) (PyInt 2)))
              (top_of step3) MUTED;
          (_, s) = arrow s
              (py_add (left_of step3) (py_truediv (width_of step3) (PyInt 2)))
              (py_add (top_of step3) (height_of step3))
              (py_add (left_of step4) (py_truediv (width_of step4) (PyInt 2)))
              (top_of step4) MUTED;
          s = add_footer s ''Slide 6/10''
      in Inr s)"

text \<open>Slide 7: AI healing pipeline\<close>

definition slide_7 :: "(path \<Rightarrow> fs_entry option) \<Rightarrow> path \<Rightarrow> slide \<Rightarrow> error + slide" where
  "slide_7 fs heal s =
     (let s = background_solid s;
          s = background_rgb s BG;
          s = add_title s ''AI Healing pipeline'' (Some (''Optional '' @ BULLET @ '' audited '' @ BULLET @ '' designed with safety guardrails''))
      in bind_result (add_picture fs s heal (Inches 0.9) (Inches 2.2) (Some (Inches 6.2)) None)
          (\<lambda>s.
           (let (_, s) = add_bullets s (Inches 7.4) (Inches 2.3) (Inches 5.2) (Inches 4.9)
              [''Trigger: action times out (TimeoutException)'',
               ''Capture HTML via getPageSource()'',
               ''Clean + redact sensitive values (best-effort)'',
               ''Ask LLM for replacement selector (if configured)'',
               ''Validate healed selector '' @ RARROW @ '' retry once'',
               ''Audit log: logs/ai-healing-audit.log'']
              18;
                s = add_footer s ''Slide 7/10''
            in Inr s)))"

text \<open>Slide 8: Hardening: cache + validation\<close>

definition slide_8 :: "slide \<Rightarrow> error + slide" where
  "slide_8 s =
     (let s = background_solid s;
          s = background_rgb s BG;
          s = add_title s ''AI hardening (real projects)'' (Some (''Redaction '' @ BULLET @ '' Healing cache '' @ BULLET @ '' Selector validation''));
          (hb1, s) = flow_box s (Inches 1.0) (Inches 2.5) (Inches 3.6) (Inches 0.9) (''Cache lookup'' @ NL @ ''healing-cache.json'') C3;
          (hb2, s) = flow_box s (Inches 5.0) (Inches 2.5) (Inches 3.6) (Inches 0.9) (''Validate selector'' @ NL @ ''(unique + actionable)'') C1;
          (hb3, s) = flow_box s (Inches 9.0) (Inches 2.5) (Inches 3.6) (Inches 0.9) (''Retry once'' @ NL @ ''(or bypass cache)'') C4;
          (_, s) = arrow s
              (py_add (left_of hb1) (width_of hb1))
              (py_add (top_of hb1) (py_truediv (height_of hb1) (PyInt 2)))
              (left_of hb2)
              (py_add (top_of hb2) (py_truediv (height_of hb2) (PyInt 2))) MUTED;
          (_, s) = arrow s
              (py_add (left_of hb2) (width_of hb2))
              (py_add (top_of hb2) (py_truediv (height_of hb2) (PyInt 2)))
              (left_of hb3)
              (py_add (top_of hb3) (py_truediv (height_of hb3) (PyInt 2))) MUTED;
          (_, s) = add_bullets s (Inches 1.0) (Inches 3.8) (Inches 11.6) (Inches 3.0)
              [''Cache reduces repeated LLM calls and speeds up healing'',
               ''Validation prevents wrong/stale selectors from hiding real issues'',
               ''If cached selector is invalid: bypass cache once and request fresh heal'',
               ''Override cache path: mvn test -Dhealing.cache.path=...json'']
              18;
          s = add_footer s ''Slide 8/10''
      in Inr s)"

text \<open>Slide 9: Demo story\<close>

definition slide_9 :: "slide \<Rightarrow> error + slide" where
  "slide_9 s =
     (let s = background_solid s;
          s = background_rgb s BG;
          s = add_title s ''Demo story'' (Some ''Login test flow + evidence artifacts'');
          (_, s) = add_bullets s (Inches 0.9) (Inches 2.2) (Inches 7.0) (Inches 4.8)
              [''Test creates driver via SeleniumFactory'',
               ''LoginPage exposes clear actions (enterUsername, enterPassword, clickLogin)'',
               ''Smart actions add stability and optional healing on failures'',
               ''Evidence: ai-healing-audit.log + healing-cache.json'']
              20;
          (cmd, s) = flow_box s (Inches 8.2) (Inches 2.6) (Inches 4.4) (Inches 0.85) ''Run: mvn test'' C2;
          (evid1, s) = flow_box s (Inches 8.2) (Inches 3.7) (Inches 4.4) (Inches 0.85) ''Audit: logs/ai-healing-audit.log'' C4;
          (evid2, s) = flow_box s (Inches 8.2) (Inches 4.8) (Inches 4.4) (Inches 0.85) ''Cache: healing-cache.json'' C3;
          s = add_footer s ''Slide 9/10''
      in Inr s)"

text \<open>Slide 10: Summary / Why\<close>

definition slide_10 :: "slide \<Rightarrow> error + slide" where
  "slide_10 s =
     (let s = background_solid s;
          s = background_rgb s BG;
          s = add_title s ''Why this framework'' (Some (''Clean '' @ BULLET @ '' Reliable '' @ BULLET @ '' Explainable '' @ BULLET @ '' Resilient''));
          s = kpi_card s (Inches 0.9) (Inches 2.3) (Inches 4.0) (Inches 1.3) ''Clarity'' ''Page Object Model'' C2;
          s = kpi_card s (Inches 0.9) (Inches 3.75) (Inches 4.0) (Inches 1.3) ''Reliability'' ''Explicit waits'' C1;
          s = kpi_card s (Inches 0.9) (Inches 5.2) (Inches 4.0) (Inches 1.3) ''Resilience'' ''AI healing (optional)'' C3;
          (_, s) = add_bullets s (Inches 5.3) (Inches 2.3) (Inches 7.0) (Inches 4.6)
              [''Designed to reduce flakiness and locator maintenance'',
               ''AI hardening: redaction + cache + validation guardrails'',
               ''Audit trail provides traceability for assignments and real teams'',
               ''Future scope: ThreadLocal drivers, reporting, screenshots'']
              20;
          (end_box, s) = flow_box s (Inches 5.3) (Inches 6.3) (Inches 7.0) (Inches 0.75) (''Thank you '' @ EMDASH @ '' Questions?'') C4;
          s = add_footer s ''Slide 10/10''
      in Inr s)"

definition make :: "world \<Rightarrow> (error + unit) \<times> world" where
  "make w =
     (let prs = Presentation;
          prs = prs\<lparr>slide_width := Inches 13.333\<rparr>;
          prs = prs\<lparr>slide_height := Inches 7.5\<rparr>;
          blank = slide_layouts prs ! 6;
          cover = ASSETS w @ [''cover.png''];
          arch = ASSETS w @ [''architecture.png''];
          heal = ASSETS w @ [''ai-healing.png''];
          fs = files w
      in case bind_result (with_new_slide prs blank (slide_1 fs cover prs)) (\<lambda>prs.
              bind_result (with_new_slide prs blank (slide_2 fs arch)) (\<lambda>prs.
              bind_result (with_new_slide prs blank slide_3) (\<lambda>prs.
              bind_result (with_new_slide prs blank (slide_4 fs arch)) (\<lambda>prs.
              bind_result (with_new_slide prs blank slide_5) (\<lambda>prs.
              bind_result (with_new_slide prs blank slide_6) (\<lambda>prs.
              bind_result (with_new_slide prs blank (slide_7 fs heal)) (\<lambda>prs.
              bind_result (with_new_slide prs blank slide_8) (\<lambda>prs.
              bind_result (with_new_slide prs blank slide_9) (\<lambda>prs.
              with_new_slide prs blank slide_10))))))))) of
           Inl e \<Rightarrow> (Inl e, w)
         | Inr prs \<Rightarrow>
             (case save prs (OUT w) w of
                (Inl e, w1) \<Rightarrow> (Inl e, w1)
              | (Inr u, w1) \<Rightarrow> print (''Created: '' @ path_str (OUT w)) w1))"

section \<open>What the helper functions build\<close>

text \<open>
  The shapes the helper functions leave on the slide, written out as values. The lemmas
  of the next section prove that the functions above, which build them by a sequence of
  updates through references, produce exactly these.
\<close>

definition styled_par :: "align option \<Rightarrow> string \<Rightarrow> int \<Rightarrow> bool \<Rightarrow> rgb \<Rightarrow> para" where
  "styled_par a t sz b c =
     \<lparr>content = [Run \<lparr>run_text = escape t, run_font = \<lparr>font_size = Some (Pt sz), font_bold = Some b, font_color = Some c\<rparr>\<rparr>],
      alignment = a, level = 0, par_font = no_font\<rparr>"

definition solid_fill :: "rgb \<Rightarrow> fill_format" where
  "solid_fill c = \<lparr>fill_type = Some SOLID, fore_color = Some c\<rparr>"

definition explicit_no_fill :: fill_format where
  "explicit_no_fill = \<lparr>fill_type = Some BACKGROUND, fore_color = None\<rparr>"

definition plain_line :: "rgb \<Rightarrow> int option \<Rightarrow> line_format" where
  "plain_line c w = \<lparr>line_fill = solid_fill c, line_width = w\<rparr>"

definition kpi_card_box :: "int \<Rightarrow> int \<Rightarrow> int \<Rightarrow> int \<Rightarrow> string \<Rightarrow> string \<Rightarrow> box" where
  "kpi_card_box x y w h heading val =
     \<lparr>box_kind = AutoShape ROUNDED_RECTANGLE, sh_left = x, sh_top = y, sh_width = w, sh_height = h,
      box_fill = solid_fill (RGBColor 2 6 23),
      box_line = plain_line (RGBColor 255 255 255) None,
      text_frame = TextFrame (styled_par (Some CENTER) heading 12 False MUTED)
                             [styled_par None val 18 True INK]\<rparr>"

definition kpi_bar_box :: "int \<Rightarrow> int \<Rightarrow> int \<Rightarrow> rgb \<Rightarrow> box" where
  "kpi_bar_box x y h accent =
     \<lparr>box_kind = AutoShape RECTANGLE, sh_left = x, sh_top = y, sh_width = Inches 0.10, sh_height = h,
      box_fill = solid_fill accent,
      box_line = \<lparr>line_fill = explicit_no_fill, line_width = None\<rparr>,
      text_frame = TextFrame (new_paragraph (Some CENTER)) []\<rparr>"

definition title_box :: "string \<Rightarrow> string option \<Rightarrow> box" where
  "title_box title subtitle =
     \<lparr>box_kind = AutoShape ROUNDED_RECTANGLE,
      sh_left = Inches 0.7, sh_top = Inches 0.6, sh_width = Inches 12.0, sh_height = Inches 1.4,
      box_fill = solid_fill (RGBColor 2 6 23),
      box_line = plain_line (RGBColor 255 255 255) None,
      text_frame = TextFrame (styled_par (Some LEFT) title 34 True INK)
        (if subtitle \<noteq> None \<and> subtitle \<noteq> Some []
         then [styled_par (Some LEFT) (the subtitle) 16 False MUTED] else [])\<rparr>"

definition footer_box :: "string \<Rightarrow> box" where
  "footer_box t =
     \<lparr>box_kind = TextBox,
      sh_left = Inches 0.7, sh_top = Inches 7.05, sh_width = Inches 12.0, sh_height = Inches 0.3,
      box_fill = explicit_no_fill, box_line = no_line,
      text_frame = TextFrame (styled_par (Some RIGHT) t 10 False MUTED) []\<rparr>"

definition flow_box_box :: "int \<Rightarrow> int \<Rightarrow> int \<Rightarrow> int \<Rightarrow> string \<Rightarrow> rgb \<Rightarrow> box" where
  "flow_box_box x y w h t accent =
     \<lparr>box_kind = AutoShape ROUNDED_RECTANGLE, sh_left = x, sh_top = y, sh_width = w, sh_height = h,
      box_fill = solid_fill (RGBColor 2 6 23),
      box_line = plain_line accent (Some (Pt 2)),
      text_frame = TextFrame (styled_par (Some CENTER) t 16 True INK) []\<rparr>"

definition arrow_connector :: "pynum \<Rightarrow> pynum \<Rightarrow> pynum \<Rightarrow> pynum \<Rightarrow> rgb \<Rightarrow> connector" where
  "arrow_connector x1 y1 x2 y2 color =
     \<lparr>conn_type = STRAIGHT,
      conn_x = py_min x1 x2, conn_y = py_min y1 y2,
      conn_cx = py_abs (py_sub x2 x1), conn_cy = py_abs (py_sub y2 y1),
      flipH = py_gt x1 x2, flipV = py_gt y1 y2,
      conn_line = plain_line color (Some (Pt 2))\<rparr>"

definition bullet_par :: "int \<Rightarrow> string \<Rightarrow> para" where
  "bullet_par font_sz it =
     \<lparr>content = append_pieces True (split_breaks it), alignment = None, level = 0,
      par_font = \<lparr>font_size = Some (Pt font_sz), font_bold = None, font_color = Some INK\<rparr>\<rparr>"

fun bullets_frame :: "int \<Rightarrow> string list \<Rightarrow> text_frame" where
  "bullets_frame font_sz [] = TextFrame (new_paragraph None) []"
| "bullets_frame font_sz (it # items) = TextFrame (bullet_par font_sz it) (map (bullet_par font_sz) items)"

definition bullets_box :: "int \<Rightarrow> int \<Rightarrow> int \<Rightarrow> int \<Rightarrow> string list \<Rightarrow> int \<Rightarrow> box" where
  "bullets_box x y w h items font_sz =
     \<lparr>box_kind = TextBox, sh_left = x, sh_top = y, sh_width = w, sh_height = h,
      box_fill = explicit_no_fill, box_line = no_line, text_frame = bullets_frame font_sz items\<rparr>"

section \<open>What \<open>make\<close> builds\<close>

text \<open>
  The ten slides written out as lists of shape values, in the order of the source. Every
  slide has the dark background and the history of a slide whose background was set
  first. The lemmas \<open>slide_1_eq\<close> to \<open>slide_10_eq\<close> prove that the ten parts of \<open>make\<close>
  build these lists; \<open>make_built\<close> proves that \<open>deck\<close> is the document \<open>make\<close> saves.
\<close>

definition picture_shape :: "image \<Rightarrow> int \<Rightarrow> int \<Rightarrow> int option \<Rightarrow> int option \<Rightarrow> shape" where
  "picture_shape img x y w h =
     Picture \<lparr>pic_image = img, pic_left = x, pic_top = y,
              pic_width = fst (scale img w h), pic_height = snd (scale img w h)\<rparr>"

definition dark_slide :: "shape list \<Rightarrow> slide" where
  "dark_slide shs =
     \<lparr>background = solid_fill BG, shapes = shs,
      calls = BackgroundSolid # BackgroundColor BG # map (\<lambda>_. AddShape) shs\<rparr>"

definition shapes_1 :: "image \<Rightarrow> shape list" where
  "shapes_1 cover_img =
     [picture_shape cover_img (Inches 0) (Inches 0) (Some (Inches 13.333)) (Some (Inches 7.5)),
        Box (title_box ''Selenium Automation Framework'' (Some (''Java 17 '' @ BULLET @ '' TestNG '' @ BULLET @ '' Smart Actions '' @ BULLET @ '' AI Auto'' @ NBHYPHEN @ ''Healing (Optional)''))),
        Box (footer_box (''Automation Assignment '' @ BULLET @ '' Framework Demo''))]"

definition shapes_2 :: "image \<Rightarrow> shape list" where
  "shapes_2 arch_img =
     [Box (title_box ''What this framework delivers'' (Some (''Maintainability '' @ BULLET @ '' Stability '' @ BULLET @ '' Resilience''))),
        Box (kpi_card_box (Inches 0.9) (Inches 2.2) (Inches 3.9) (Inches 1.2) ''Stability'' ''Explicit waits''),
        Box (kpi_bar_box (Inches 0.9) (Inches 2.2) (Inches 1.2) C1),
        Box (kpi_card_box (Inches 0.9) (Inches 3.55) (Inches 3.9) (Inches 1.2) ''Maintainability'' ''POM + annotations''),
        Box (kpi_bar_box (Inches 0.9) (Inches 3.55) (Inches 1.2) C2),
        Box (kpi_card_box (Inches 0.9) (Inches 4.9) (Inches 3.9) (Inches 1.2) ''Resilience'' ''AI healing + audit''),
        Box (kpi_bar_box (Inches 0.9) (Inches 4.9) (Inches 1.2) C3),
        Box (bullets_box (Inches 0.9) (Inches 6.2) (Inches 6.2) (Inches 0.7)
           [''Low setup with Selenium Manager'',
            ''Centralized waits + smart actions'',
            ''Safety: redaction, cache, validation'']
           16),
        picture_shape arch_img (Inches 7.1) (Inches 2.2) (Some (Inches 5.5)) None,
        Box (footer_box ''Slide 2/10'')]"

definition shapes_3 :: "shape list" where
  "shapes_3 =
     (let b1 = flow_box_box (Inches 1.0) (Inches 2.7) (Inches 2.6) (Inches 0.9) ''UI Changes'' C4;
          b2 = flow_box_box (Inches 4.0) (Inches 2.7) (Inches 2.6) (Inches 0.9) ''Broken Selectors'' C2;
          b3 = flow_box_box (Inches 7.0) (Inches 2.7) (Inches 2.6) (Inches 0.9) ''Test Failures'' C1;
          b4 = flow_box_box (Inches 10.0) (Inches 2.7) (Inches 2.6) (Inches 0.9) ''Maintenance Cost'' C3
      in [Box (title_box ''The problem we solve'' (Some ''UI changes cause fragile selectors and maintenance cost'')),
          Box b1,
          Box b2,
          Box b3,
          Box b4,
          Connector (arrow_connector
             (py_add (left_of b1) (width_of b1))
             (py_add (top_of b1) (py_truediv (height_of b1) (PyInt 2)))
             (left_of b2)
             (py_add (top_of b2) (py_truediv (height_of b2) (PyInt 2))) MUTED),
          Connector (arrow_connector
             (py_add (left_of b2) (width_of b2))
             (py_add (top_of b2) (py_truediv (height_of b2) (PyInt 2)))
             (left_of b3)
             (py_add (top_of b3) (py_truediv (height_of b3) (PyInt 2))) MUTED),
          Connector (arrow_connector
             (py_add (left_of b3) (width_of b3))
             (py_add (top_of b3) (py_truediv (height_of b3) (PyInt 2)))
             (left_of b4)
             (py_add (top_of b4) (py_truediv (height_of b4) (PyInt 2))) MUTED),
          Box (bullets_box (Inches 1.0) (Inches 4.3) (Inches 11.6) (Inches 2.6)
             [''Flaky runs due to timing and dynamic DOM'',
              ''Selector churn during UI releases'',
              ''Boilerplate waits and locators repeated across tests'',
              ''Limited traceability on what changed and why'']
             18),
          Box (footer_box ''Slide 3/10'')])"

definition shapes_4 :: "image \<Rightarrow> shape list" where
  "shapes_4 arch_img =
     [Box (title_box ''Architecture overview'' (Some ''Layered design with clear responsibilities'')),
        picture_shape arch_img (Inches 0.9) (Inches 2.2) (Some (Inches 6.1)) None,
        Box (bullets_box (Inches 7.3) (Inches 2.3) (Inches 5.1) (Inches 4.8)
           [''Tests (TestNG): call page actions'',
            ''Pages: business actions + @SeleniumSelector'',
            ''Core: waits + smart actions + element wiring'',
            ''AI (optional): healing with audit log'',
            ''Utilities: JSON + HTML cleaning'']
           18),
        Box (footer_box ''Slide 4/10'')]"

definition shapes_5 :: "shape list" where
  "shapes_5 =
     (let cA = flow_box_box (Inches 1.0) (Inches 2.4) (Inches 3.7) (Inches 1.0) (''SeleniumFactory'' @ NL @ ''(WebDriver lifecycle)'') C1;
          cB = flow_box_box (Inches 1.0) (Inches 3.8) (Inches 3.7) (Inches 1.0) (''BasePage'' @ NL @ ''(waits + smart actions)'') C2;
          cC = flow_box_box (Inches 5.2) (Inches 2.4) (Inches 3.7) (Inches 1.0) (''ElementInitializer'' @ NL @ ''(reflection wiring)'') C3;
          cD = flow_box_box (Inches 5.2) (Inches 3.8) (Inches 3.7) (Inches 1.0) (''SmartElement'' @ NL @ ''(By + driver)'') C4
      in [Box (title_box ''Core implementation'' (Some ''How the framework works under the hood'')),
          Box cA,
          Box cB,
          Box cC,
          Box cD,
          Connector (arrow_connector
             (py_add (left_of cA) (width_of cA))
             (py_add (top_of cA) (py_truediv (height_of cA) (PyInt 2)))
             (left_of cC)
             (py_add (top_of cC) (py_truediv (height_of cC) (PyInt 2))) MUTED),
          Connector (arrow_connector
             (py_add (left_of cB) (width_of cB))
             (py_add (top_of cB) (py_truediv (height_of cB) (PyInt 2)))
             (left_of cD)
             (py_add (top_of cD) (py_truediv (height_of cD) (PyInt 2))) MUTED),
          Box (bullets_box (Inches 9.3) (Inches 2.4) (Inches 3.9) (Inches 4.2)
             [''Explicit waits (10s default)'',
              ''CSS selectors by default'',
              ''XPath via prefix: xpath=...'',
              ''Minimal boilerplate in tests'']
             18),
          Box (footer_box ''Slide 5/10'')])"

definition shapes_6 :: "shape list" where
  "shapes_6 =
     (let step1 = flow_box_box (Inches 7.4) (Inches 2.3) (Inches 5.2) (Inches 0.75) (''Parse selector '' @ RARROW @ '' By'') C1;
          step2 = flow_box_box (Inches 7.4) (Inches 3.2) (Inches 5.2) (Inches 0.75) ''Explicit wait (visibility/clickable)'' C2;
          step3 = flow_box_box (Inches 7.4) (Inches 4.1) (Inches 5.2) (Inches 0.75) ''Perform action (click/type)'' C3;
          step4 = flow_box_box (Inches 7.4) (Inches 5.0) (Inches 5.2) (Inches 0.75) (''If timeout '' @ RARROW @ '' AI heal '' @ RARROW @ '' validate '' @ RARROW @ '' retry once'') C4
      in [Box (title_box ''Smart Actions'' (Some ''Stable by default; healing only on failure'')),
          Box (bullets_box (Inches 0.9) (Inches 2.2) (Inches 6.3) (Inches 4.8)
             [''smartClick(selector): wait '' @ RARROW @ '' click'',
              ''smartFill(selector, value): wait '' @ RARROW @ '' clear '' @ RARROW @ '' type'',
              ''On TimeoutException '' @ RARROW @ '' healing attempt (1 retry)'',
              ''StaleElementReferenceException '' @ RARROW @ '' retry once (no AI)'']
             20),
          Box step1,
          Box step2,
          Box step3,
          Box step4,
          Connector (arrow_connector
             (py_add (left_of step1) (py_truediv (width_of step1) (PyInt 2)))
             (py_add (top_of step1) (height_of step1))
             (py_add (left_of step2) (py_truediv (width_of step2) (PyInt 2)))
             (top_of step2) MUTED),
          Connector (arrow_connector
             (py_add (left_of step2) (py_truediv (width_of step2) (PyInt 2)))
             (py_add (top_of step2) (height_of step2))
             (py_add (left_of step3) (py_truediv (width_of step3) (PyInt 2)))
             (top_of step3) MUTED),
          Connector (arrow_connector
             (py_add (left_of step3) (py_truediv (width_of step3) (PyInt 2)))
             (py_add (top_of step3) (height_of step3))
             (py_add (left_of step4) (py_truediv (width_of step4) (PyInt 2)))
             (top_of step4) MUTED),
          Box (footer_box ''Slide 6/10'')])"

definition shapes_7 :: "image \<Rightarrow> shape list" where
  "shapes_7 heal_img =
     [Box (title_box ''AI Healing pipeline'' (Some (''Optional '' @ BULLET @ '' audited '' @ BULLET @ '' designed with safety guardrails''))),
        picture_shape heal_img (Inches 0.9) (Inches 2.2) (Some (Inches 6.2)) None,
        Box (bullets_box (Inches 7.4) (Inches 2.3) (Inches 5.2) (Inches 4.9)
           [''Trigger: action times out (TimeoutException)'',
            ''Capture HTML via getPageSource()'',
            ''Clean + redact sensitive values (best-effort)'',
            ''Ask LLM for replacement selector (if configured)'',
            ''Validate healed selector '' @ RARROW @ '' retry once'',
            ''Audit log: logs/ai-healing-audit.log'']
           18),
        Box (footer_box ''Slide 7/10'')]"

definition shapes_8 :: "shape list" where
  "shapes_8 =
     (let hb1 = flow_box_box (Inches 1.0) (Inches 2.5) (Inches 3.6) (Inches 0.9) (''Cache lookup'' @ NL @ ''healing-cache.json'') C3;
          hb2 = flow_box_box (Inches 5.0) (Inches 2.5) (Inches 3.6) (Inches 0.9) (''Validate selector'' @ NL @ ''(unique + actionable)'') C1;
          hb3 = flow_box_box (Inches 9.0) (Inches 2.5) (Inches 3.6) (Inches 0.9) (''Retry once'' @ NL @ ''(or bypass cache)'') C4
      in [Box (title_box ''AI hardening (real projects)'' (Some (''Redaction '' @ BULLET @ '' Healing cache '' @ BULLET @ '' Selector validation''))),
          Box hb1,
          Box hb2,
          Box hb3,
          Connector (arrow_connector
             (py_add (left_of hb1) (width_of hb1))
             (py_add (top_of hb1) (py_truediv (height_of hb1) (PyInt 2)))
             (left_of hb2)
             (py_add (top_of hb2) (py_truediv (height_of hb2) (PyInt 2))) MUTED),
          Connector (arrow_connector
             (py_add (left_of hb2) (width_of hb2))
             (py_add (top_of hb2) (py_truediv (height_of hb2) (PyInt 2)))
             (left_of hb3)
             (py_add (top_of hb3) (py_truediv (height_of hb3) (PyInt 2))) MUTED),
          Box (bullets_box (Inches 1.0) (Inches 3.8) (Inches 11.6) (Inches 3.0)
             [''Cache reduces repeated LLM calls and speeds up healing'',
              ''Validation prevents wrong/stale selectors from hiding real issues'',
              ''If cached selector is invalid: bypass cache once and request fresh heal'',
              ''Override cache path: mvn test -Dhealing.cache.path=...json'']
             18),
          Box (footer_box ''Slide 8/10'')])"

definition shapes_9 :: "shape list" where
  "shapes_9 =
     (let cmd = flow_box_box (Inches 8.2) (Inches 2.6) (Inches 4.4) (Inches 0.85) ''Run: mvn test'' C2;
          evid1 = flow_box_box (Inches 8.2) (Inches 3.7) (Inches 4.4) (Inches 0.85) ''Audit: logs/ai-healing-audit.log'' C4;
          evid2 = flow_box_box (Inches 8.2) (Inches 4.8) (Inches 4.4) (Inches 0.85) ''Cache: healing-cache.json'' C3
      in [Box (title_box ''Demo story'' (Some ''Login test flow + evidence artifacts'')),
          Box (bullets_box (Inches 0.9) (Inches 2.2) (Inches 7.0) (Inches 4.8)
             [''Test creates driver via SeleniumFactory'',
              ''LoginPage exposes clear actions (enterUsername, enterPassword, clickLogin)'',
              ''Smart actions add stability and optional healing on failures'',
              ''Evidence: ai-healing-audit.log + healing-cache.json'']
             20),
          Box cmd,
          Box evid1,
          Box evid2,
          Box (footer_box ''Slide 9/10'')])"

definition shapes_10 :: "shape list" where
  "shapes_10 =
     (let end_box = flow_box_box (Inches 5.3) (Inches 6.3) (Inches 7.0) (Inches 0.75) (''Thank you '' @ EMDASH @ '' Questions?'') C4
      in [Box (title_box ''Why this framework'' (Some (''Clean '' @ BULLET @ '' Reliable '' @ BULLET @ '' Explainable '' @ BULLET @ '' Resilient''))),
          Box (kpi_card_box (Inches 0.9) (Inches 2.3) (Inches 4.0) (Inches 1.3) ''Clarity'' ''Page Object Model''),
          Box (kpi_bar_box (Inches 0.9) (Inches 2.3) (Inches 1.3) C2),
          Box (kpi_card_box (Inches 0.9) (Inches 3.75) (Inches 4.0) (Inches 1.3) ''Reliability'' ''Explicit waits''),
          Box (kpi_bar_box (Inches 0.9) (Inches 3.75) (Inches 1.3) C1),
          Box (kpi_card_box (Inches 0.9) (Inches 5.2) (Inches 4.0) (Inches 1.3) ''Resilience'' ''AI healing (optional)''),
          Box (kpi_bar_box (Inches 0.9) (Inches 5.2) (Inches 1.3) C3),
          Box (bullets_box (Inches 5.3) (Inches 2.3) (Inches 7.0) (Inches 4.6)
             [''Designed to reduce flakiness and locator maintenance'',
              ''AI hardening: redaction + cache + validation guardrails'',
              ''Audit trail provides traceability for assignments and real teams'',
              ''Future scope: ThreadLocal drivers, reporting, screenshots'']
             20),
          Box end_box,
          Box (footer_box ''Slide 10/10'')])"

definition deck :: "image \<Rightarrow> image \<Rightarrow> image \<Rightarrow> presentation" where
  "deck cover_img arch_img heal_img =
     \<lparr>slide_width = Inches 13.333, slide_height = Inches 7.5,
      slides = map dark_slide
        [shapes_1 cover_img, shapes_2 arch_img, shapes_3, shapes_4 arch_img, shapes_5,
         shapes_6, shapes_7 heal_img, shapes_8, shapes_9, shapes_10]\<rparr>"

text \<open>
  The three picture files \<open>make\<close> reads, the image a path holds (if it holds one), the
  error \<open>add_picture\<close> raises for a path that holds none, and the line \<open>make\<close> prints.
\<close>

definition cover_png :: "world \<Rightarrow> path" where
  "cover_png w = ASSETS w @ [''cover.png'']"

definition architecture_png :: "world \<Rightarrow> path" where
  "architecture_png w = ASSETS w @ [''architecture.png'']"

definition ai_healing_png :: "world \<Rightarrow> path" where
  "ai_healing_png w = ASSETS w @ [''ai-healing.png'']"

definition image_at :: "(path \<Rightarrow> fs_entry option) \<Rightarrow> path \<Rightarrow> image option" where
  "image_at fs p =
     (case fs p of
        Some (ImageFile img) \<Rightarrow> if 0 < px_width img \<and> 0 < px_height img then Some img else None
      | _ \<Rightarrow> None)"

definition asset_error :: "(path \<Rightarrow> fs_entry option) \<Rightarrow> path \<Rightarrow> error" where
  "asset_error fs p = (case fs p of None \<Rightarrow> FileNotFoundError p | Some _ \<Rightarrow> UnidentifiedImageError p)"

definition confirmation :: "world \<Rightarrow> string" where
  "confirmation w = ''Created: '' @ path_str (OUT w)"

section \<open>Reading the document\<close>

text \<open>
  What the claims observe of a slide: its boxes and connectors in order, the text of every
  paragraph, and its title, which is the first paragraph of the first auto shape (the
  block \<open>add_title\<close> draws; the slides come from the blank layout and have no title
  placeholder).
\<close>

definition boxes :: "slide \<Rightarrow> box list" where
  "boxes s = concat (map (\<lambda>sh. case sh of Box b \<Rightarrow> [b] | _ \<Rightarrow> []) (shapes s))"

definition frame_texts :: "box \<Rightarrow> string list" where
  "frame_texts b = map par_text (paragraphs (text_frame b))"

definition slide_texts :: "slide \<Rightarrow> string list" where
  "slide_texts s = concat (map frame_texts (boxes s))"

definition slide_title :: "slide \<Rightarrow> string option" where
  "slide_title s =
     (case filter (\<lambda>b. box_kind b \<noteq> TextBox) (boxes s) of
        [] \<Rightarrow> None
      | b # _ \<Rightarrow> Some (hd (frame_texts b)))"

definition title_paragraphs :: "slide \<Rightarrow> nat option" where
  "title_paragraphs s =
     (case filter (\<lambda>b. box_kind b \<noteq> TextBox) (boxes s) of
        [] \<Rightarrow> None
      | b # _ \<Rightarrow> Some (length (paragraphs (text_frame b))))"

definition pictures :: "slide \<Rightarrow> picture list" where
  "pictures s = concat (map (\<lambda>sh. case sh of Picture p \<Rightarrow> [p] | _ \<Rightarrow> []) (shapes s))"


text \<open>
  Text without control characters: every character is at or above \<open>0x20\<close>. Such text has
  no line break to split at and nothing to escape.
\<close>

definition plain :: "string \<Rightarrow> bool" where
  "plain t = list_all (\<lambda>c. (32::nat) \<le> of_char c) t"

text \<open>
  Geometry. A connector begins and ends at the corners of its bounding box that the two
  flips select. A point lies on the boundary of a box when it lies on one of the four edges
  of its bounding rectangle; \<open>right_mid\<close> and \<open>left_mid\<close> are the midpoints of the right
  and the left edge. A connector joins box \<open>a\<close> to box \<open>b\<close> when it begins on the boundary
  of \<open>a\<close> and ends on the boundary of \<open>b\<close>, and, where it is horizontal, begins at the
  midpoint of the right edge of \<open>a\<close> and ends at the midpoint of the left edge of \<open>b\<close>.
\<close>

definition begin_x :: "connector \<Rightarrow> rat" where
  "begin_x c = (if flipH c then to_rat (conn_x c) + to_rat (conn_cx c) else to_rat (conn_x c))"

definition begin_y :: "connector \<Rightarrow> rat" where
  "begin_y c = (if flipV c then to_rat (conn_y c) + to_rat (conn_cy c) else to_rat (conn_y c))"

definition end_x :: "connector \<Rightarrow> rat" where
  "end_x c = (if flipH c then to_rat (conn_x c) else to_rat (conn_x c) + to_rat (conn_cx c))"

definition end_y :: "connector \<Rightarrow> rat" where
  "end_y c = (if flipV c then to_rat (conn_y c) else to_rat (conn_y c) + to_rat (conn_cy c))"







text \<open>
  Read off the source: the title of every slide; the title, subtitle and bullet strings
  \<open>make\<close> passes for every slide; and for every \<open>arrow\<close> call its position in the slide's
  shape list with the positions of the two boxes whose attributes its arguments read.
\<close>

definition slide_titles :: "string list" where
  "slide_titles =
     [''Selenium Automation Framework'',
      ''What this framework delivers'',
      ''The problem we solve'',
      ''Architecture overview'',
      ''Core implementation'',
      ''Smart Actions'',
      ''AI Healing pipeline'',
      ''AI hardening (real projects)'',
      ''Demo story'',
      ''Why this framework'']"

definition passed_texts :: "string list list" where
  "passed_texts =
     [[''Selenium Automation Framework'',
       ''Java 17 '' @ BULLET @ '' TestNG '' @ BULLET @ '' Smart Actions '' @ BULLET @ '' AI Auto'' @ NBHYPHEN @ ''Healing (Optional)''],
      [''What this framework delivers'',
       ''Maintainability '' @ BULLET @ '' Stability '' @ BULLET @ '' Resilience'',
       ''Low setup with Selenium Manager'',
       ''Centralized waits + smart actions'',
       ''Safety: redaction, cache, validation''],
      [''The problem we solve'',
       ''UI changes cause fragile selectors and maintenance cost'',
       ''Flaky runs due to timing and dynamic DOM'',
       ''Selector churn during UI releases'',
       ''Boilerplate waits and locators repeated across tests'',
       ''Limited traceability on what changed and why''],
      [''Architecture overview'',
       ''Layered design with clear responsibilities'',
       ''Tests (TestNG): call page actions'',
       ''Pages: business actions + @SeleniumSelector'',
       ''Core: waits + smart actions + element wiring'',
       ''AI (optional): healing with audit log'',
       ''Utilities: JSON + HTML cleaning''],
      [''Core implementation'',
       ''How the framework works under the hood'',
       ''Explicit waits (10s default)'',
       ''CSS selectors by default'',
       ''XPath via prefix: xpath=...'',
       ''Minimal boilerplate in tests''],
      [''Smart Actions'',
       ''Stable by default; healing only on failure'',
       ''smartClick(selector): wait '' @ RARROW @ '' click'',
       ''smartFill(selector, value): wait '' @ RARROW @ '' clear '' @ RARROW @ '' type'',
       ''On TimeoutException '' @ RARROW @ '' healing attempt (1 retry)'',
       ''StaleElementReferenceException '' @ RARROW @ '' retry once (no AI)''],
      [''AI Healing pipeline'',
       ''Optional '' @ BULLET @ '' audited '' @ BULLET @ '' designed with safety guardrails'',
       ''Trigger: action times out (TimeoutException)'',
       ''Capture HTML via getPageSource()'',
       ''Clean + redact sensitive values (best-effort)'',
       ''Ask LLM for replacement selector (if configured)'',
       ''Validate healed selector '' @ RARROW @ '' retry once'',
       ''Audit log: logs/ai-healing-audit.log''],
      [''AI hardening (real projects)'',
       ''Redaction '' @ BULLET @ '' Healing cache '' @ BULLET @ '' Selector validation'',
       ''Cache reduces repeated LLM calls and speeds up healing'',
       ''Validation prevents wrong/stale selectors from hiding real issues'',
       ''If cached selector is invalid: bypass cache once and request fresh heal'',
       ''Override cache path: mvn test -Dhealing.cache.path=...json''],
      [''Demo story'',
       ''Login test flow + evidence artifacts'',
       ''Test creates driver via SeleniumFactory'',
       ''LoginPage exposes clear actions (enterUsername, enterPassword, clickLogin)'',
       ''Smart actions add stability and optional healing on failures'',
       ''Evidence: ai-healing-audit.log + healing-cache.json''],
      [''Why this framework'',
       ''Clean '' @ BULLET @ '' Reliable '' @ BULLET @ '' Explainable '' @ BULLET @ '' Resilient'',
       ''Designed to reduce flakiness and locator maintenance'',
       ''AI hardening: redaction + cache + validation guardrails'',
       ''Audit trail provides traceability for assignments and real teams'',
       ''Future scope: ThreadLocal drivers, reporting, screenshots'']]"


text \<open>
  A picture with its image and its height replaced, to compare documents apart from what
  comes from the picture files: the image itself and the height, which the library scales
  from the image where the caller gives a width only.
\<close>

definition no_image :: image where
  "no_image = Image 1 1 72 72"

definition blank_image :: "shape \<Rightarrow> shape" where
  "blank_image sh =
     (case sh of Picture p \<Rightarrow> Picture (p\<lparr>pic_image := no_image, pic_height := 0\<rparr>) | _ \<Rightarrow> sh)"

definition blank_images :: "presentation \<Rightarrow> presentation" where
  "blank_images prs = prs\<lparr>slides := map (\<lambda>s. s\<lparr>shapes := map blank_image (shapes s)\<rparr>) (slides prs)\<rparr>"

text \<open>A world to run the script in: the three pictures exist, the output can be written.\<close>

definition example_world :: world where
  "example_world =
     \<lparr>script_dir = [''repo'', ''presentation''],
      files = [[''repo'', ''presentation'', ''assets'', ''cover.png''] \<mapsto> ImageFile (Image 1600 900 72 72),
               [''repo'', ''presentation'', ''assets'', ''architecture.png''] \<mapsto> ImageFile (Image 1200 800 72 72),
               [''repo'', ''presentation'', ''assets'', ''ai-healing.png''] \<mapsto> ImageFile (Image 1200 700 96 96)],
      writable = (\<lambda>p. True),
      stdout = []\<rparr>"

definition example_deck :: presentation where
  "example_deck = deck (Image 1600 900 72 72) (Image 1200 800 72 72) (Image 1200 700 96 96)"

definition example_result :: world where
  "example_result =
     example_world\<lparr>files := (files example_world)(OUT example_world \<mapsto> PptxFile example_deck),
                   stdout := [''Created: /repo/presentation/Selenium_Automation_Framework_AI_Healing.pptx'']\<rparr>"

text \<open>The same world with the cover picture missing.\<close>

definition world_without_cover :: world where
  "world_without_cover =
     example_world\<lparr>files := (files example_world)([''repo'', ''presentation'', ''assets'', ''cover.png''] := None)\<rparr>"

section \<open>The helper functions in closed form\<close>

lemma fst_append_shape [simp]: "fst (append_shape s sh) = length (shapes s)"
  by (simp add: append_shape_def)

lemma shapes_append_shape [simp]: "shapes (snd (append_shape s sh)) = shapes s @ [sh]"
  by (simp add: append_shape_def)

lemma background_append_shape [simp]: "background (snd (append_shape s sh)) = background s"
  by (simp add: append_shape_def)

lemma calls_append_shape [simp]: "calls (snd (append_shape s sh)) = calls s @ [AddShape]"
  by (simp add: append_shape_def)

lemma upd_box_last [simp]:
  "h = length (shapes s) \<Longrightarrow> upd_box h f (snd (append_shape s (Box b))) = snd (append_shape s (Box (f b)))"
  by (simp add: upd_box_def append_shape_def)

lemma upd_box_last2 [simp]:
  "h = length (shapes s) \<Longrightarrow>
   upd_box h f (snd (append_shape (snd (append_shape s (Box b))) sh))
     = snd (append_shape (snd (append_shape s (Box (f b)))) sh)"
  by (simp add: upd_box_def append_shape_def nth_append list_update_append)

lemma box_at_last [simp]:
  "h = length (shapes s) \<Longrightarrow> box_at (snd (append_shape s (Box b))) h = b"
  by (simp add: box_at_def)

lemma box_at_last2 [simp]:
  "h = length (shapes s) \<Longrightarrow> box_at (snd (append_shape (snd (append_shape s (Box b))) sh)) h = b"
  by (simp add: box_at_def nth_append)

lemmas helper_simps = add_shape_def add_textbox_def upd_tf_def upd_par_in_def
  upd_run_in_def add_run_in_def add_paragraph_in_def new_box_def add_run_def upd_run_def
  new_paragraph_def new_run_def par_clear_def set_text_def Let_def split_def
  solid_def set_fore_color_def set_line_color_def background_fill_def no_fill_def no_line_def
  set_fill_transparency_def set_line_transparency_def

lemmas box_defs = styled_par_def solid_fill_def explicit_no_fill_def plain_line_def

lemma kpi_card_eq:
  "kpi_card s x y w h heading v accent =
     snd (append_shape (snd (append_shape s (Box (kpi_card_box x y w h heading v)))) (Box (kpi_bar_box x y h accent)))"
  by (simp add: kpi_card_def helper_simps kpi_card_box_def kpi_bar_box_def box_defs)


lemma add_title_eq:
  "add_title s title subtitle = snd (append_shape s (Box (title_box title subtitle)))"
  by (simp add: add_title_def helper_simps title_box_def box_defs)

lemma add_footer_eq:
  "add_footer s t = snd (append_shape s (Box (footer_box t)))"
  by (simp add: add_footer_def helper_simps footer_box_def box_defs)

lemma flow_box_eq:
  "flow_box s x y w h t accent =
     (flow_box_box x y w h t accent, snd (append_shape s (Box (flow_box_box x y w h t accent))))"
  by (simp add: flow_box_def helper_simps flow_box_box_def box_defs)

lemma arrow_eq:
  "arrow s x1 y1 x2 y2 color =
     (arrow_connector x1 y1 x2 y2 color, snd (append_shape s (Connector (arrow_connector x1 y1 x2 y2 color))))"
  by (simp add: arrow_def add_connector_def upd_connector_def append_shape_def arrow_connector_def
        Let_def split_def set_line_color_def solid_def set_fore_color_def no_line_def no_fill_def
        solid_fill_def plain_line_def)

lemma bullets_loop_later:
  "h = length (shapes s) \<Longrightarrow> i \<noteq> 0 \<Longrightarrow>
   bullets_loop h i items font_sz (snd (append_shape s (Box (bx\<lparr>text_frame := TextFrame q qs\<rparr>))))
     = snd (append_shape s (Box (bx\<lparr>text_frame := TextFrame q (qs @ map (bullet_par font_sz) items)\<rparr>)))"
proof (induction items arbitrary: i qs)
  case Nil
  then show ?case by simp
next
  case (Cons it items)
  have step: "bullets_loop h i (it # items) font_sz (snd (append_shape s (Box (bx\<lparr>text_frame := TextFrame q qs\<rparr>))))
     = bullets_loop h (Suc i) items font_sz
         (snd (append_shape s (Box (bx\<lparr>text_frame := TextFrame q (qs @ [bullet_par font_sz it])\<rparr>))))"
    using Cons.prems
    by (simp add: helper_simps bullet_par_def set_par_text_def no_font_def comp_def)
  show ?case
    unfolding step using Cons.IH [of "Suc i" "qs @ [bullet_par font_sz it]"] Cons.prems by simp
qed

lemma bullets_loop_first:
  "h = length (shapes s) \<Longrightarrow>
   bullets_loop h 0 (it # items) font_sz
       (snd (append_shape s (Box (bx\<lparr>text_frame := TextFrame (new_paragraph None) []\<rparr>))))
     = snd (append_shape s (Box (bx\<lparr>text_frame := TextFrame (bullet_par font_sz it) (map (bullet_par font_sz) items)\<rparr>)))"
proof -
  assume h: "h = length (shapes s)"
  have "bullets_loop h 0 (it # items) font_sz
          (snd (append_shape s (Box (bx\<lparr>text_frame := TextFrame (new_paragraph None) []\<rparr>))))
      = bullets_loop h (Suc 0) items font_sz
          (snd (append_shape s (Box (bx\<lparr>text_frame := TextFrame (bullet_par font_sz it) []\<rparr>))))"
    using h by (simp add: helper_simps bullet_par_def set_par_text_def no_font_def comp_def)
  also have "\<dots> = snd (append_shape s (Box (bx\<lparr>text_frame :=
                  TextFrame (bullet_par font_sz it) ([] @ map (bullet_par font_sz) items)\<rparr>)))"
    using h by (intro bullets_loop_later) simp_all
  finally show ?thesis by simp
qed

lemma bullets_loop_eq:
  "h = length (shapes s) \<Longrightarrow>
   bullets_loop h 0 items font_sz
       (snd (append_shape s (Box (bx\<lparr>text_frame := TextFrame (new_paragraph None) []\<rparr>))))
     = snd (append_shape s (Box (bx\<lparr>text_frame := bullets_frame font_sz items\<rparr>)))"
proof (cases items)
  case Nil
  then show ?thesis by simp
next
  case (Cons it rest)
  assume "h = length (shapes s)"
  then show ?thesis
    unfolding Cons bullets_frame.simps by (rule bullets_loop_first)
qed

lemma add_bullets_eq:
  "add_bullets s x y w h items font_sz =
     (bullets_box x y w h items font_sz, snd (append_shape s (Box (bullets_box x y w h items font_sz))))"
proof -
  let ?bx = "new_box TextBox x y w h"
  have a: "add_textbox s x y w h = (length (shapes s), snd (append_shape s (Box ?bx)))"
    by (simp add: add_textbox_def prod_eq_iff)
  have b: "upd_tf (length (shapes s)) tf_clear (snd (append_shape s (Box ?bx)))
      = snd (append_shape s (Box (?bx\<lparr>text_frame := TextFrame (new_paragraph None) []\<rparr>)))"
    by (simp add: upd_tf_def new_box_def par_clear_def new_paragraph_def)
  have d: "?bx\<lparr>text_frame := bullets_frame font_sz items\<rparr> = bullets_box x y w h items font_sz"
    by (simp add: new_box_def bullets_box_def explicit_no_fill_def background_fill_def no_fill_def)
  show ?thesis
    by (simp add: add_bullets_def a b bullets_loop_eq d)
qed

section \<open>The parts of \<open>make\<close> in closed form\<close>

lemma append_shape_record:
  "snd (append_shape \<lparr>background = b, shapes = xs, calls = cs\<rparr> sh)
     = \<lparr>background = b, shapes = xs @ [sh], calls = cs @ [AddShape]\<rparr>"
  by (simp add: append_shape_def)

lemma image_at_Some:
  "image_at fs p = Some img \<Longrightarrow> fs p = Some (ImageFile img) \<and> 0 < px_width img \<and> 0 < px_height img"
  by (auto simp: image_at_def split: option.splits fs_entry.splits if_splits)

lemma add_picture_image:
  "image_at fs p = Some img \<Longrightarrow>
   add_picture fs s p x y w h = Inr (snd (append_shape s (picture_shape img x y w h)))"
  by (drule image_at_Some) (simp add: add_picture_def picture_shape_def)

lemmas section_simps = Let_def bind_result_def add_title_eq add_footer_eq flow_box_eq arrow_eq
  add_bullets_eq kpi_card_eq add_picture_image append_shape_record
  background_solid_def background_rgb_def new_slide_def dark_slide_def
  solid_def set_fore_color_def no_fill_def solid_fill_def

lemma slide_1_eq:
  assumes "image_at fs cover = Some cover_img"
    and "slide_width prs = Inches 13.333" and "slide_height prs = Inches 7.5"
  shows "slide_1 fs cover prs new_slide = Inr (dark_slide (shapes_1 cover_img))"
  using assms
  by (simp add: slide_1_def shapes_1_def section_simps)

lemma slide_2_eq:
  assumes "image_at fs arch = Some arch_img"
  shows "slide_2 fs arch new_slide = Inr (dark_slide (shapes_2 arch_img))"
  using assms
  by (simp add: slide_2_def shapes_2_def section_simps)

lemma slide_3_eq: "slide_3 new_slide = Inr (dark_slide shapes_3)"
  by (simp add: slide_3_def shapes_3_def section_simps)

lemma slide_4_eq:
  assumes "image_at fs arch = Some arch_img"
  shows "slide_4 fs arch new_slide = Inr (dark_slide (shapes_4 arch_img))"
  using assms
  by (simp add: slide_4_def shapes_4_def section_simps)

lemma slide_5_eq: "slide_5 new_slide = Inr (dark_slide shapes_5)"
  by (simp add: slide_5_def shapes_5_def section_simps)

lemma slide_6_eq: "slide_6 new_slide = Inr (dark_slide shapes_6)"
  by (simp add: slide_6_def shapes_6_def section_simps)

lemma slide_7_eq:
  assumes "image_at fs heal = Some heal_img"
  shows "slide_7 fs heal new_slide = Inr (dark_slide (shapes_7 heal_img))"
  using assms
  by (simp add: slide_7_def shapes_7_def section_simps)

lemma slide_8_eq: "slide_8 new_slide = Inr (dark_slide shapes_8)"
  by (simp add: slide_8_def shapes_8_def section_simps)

lemma slide_9_eq: "slide_9 new_slide = Inr (dark_slide shapes_9)"
  by (simp add: slide_9_def shapes_9_def section_simps)

lemma slide_10_eq: "slide_10 new_slide = Inr (dark_slide shapes_10)"
  by (simp add: slide_10_def shapes_10_def section_simps)

lemma add_picture_no_image:
  "image_at fs p = None \<Longrightarrow> add_picture fs s p x y w h = Inl (asset_error fs p)"
  by (auto simp: image_at_def add_picture_def asset_error_def split: option.splits fs_entry.splits if_splits)

lemma slide_1_fail: "image_at fs p = None \<Longrightarrow> slide_1 fs p prs s = Inl (asset_error fs p)"
  by (simp add: slide_1_def Let_def split_def bind_result_def add_picture_no_image)

lemma slide_2_fail: "image_at fs p = None \<Longrightarrow> slide_2 fs p s = Inl (asset_error fs p)"
  by (simp add: slide_2_def Let_def split_def bind_result_def add_picture_no_image)

lemma slide_4_fail: "image_at fs p = None \<Longrightarrow> slide_4 fs p s = Inl (asset_error fs p)"
  by (simp add: slide_4_def Let_def split_def bind_result_def add_picture_no_image)

lemma slide_7_fail: "image_at fs p = None \<Longrightarrow> slide_7 fs p s = Inl (asset_error fs p)"
  by (simp add: slide_7_def Let_def split_def bind_result_def add_picture_no_image)

lemma with_new_slide_eq:
  "with_new_slide prs Blank body
     = (case body new_slide of Inl e \<Rightarrow> Inl e | Inr sl \<Rightarrow> Inr (prs\<lparr>slides := slides prs @ [sl]\<rparr>))"
  by (simp add: with_new_slide_def on_slide_err_def split: sum.splits)

lemma blank_layout: "slide_layouts prs ! 6 = Blank"
  by (simp add: slide_layouts_def)

lemmas make_simps = make_def Let_def blank_layout with_new_slide_eq bind_result_def
  cover_png_def architecture_png_def ai_healing_png_def Presentation_def

lemma make_cover_missing:
  "image_at (files w) (cover_png w) = None \<Longrightarrow> make w = (Inl (asset_error (files w) (cover_png w)), w)"
  by (simp add: make_simps slide_1_fail)

lemma make_arch_missing:
  assumes "image_at (files w) (cover_png w) = Some ic"
    and "image_at (files w) (architecture_png w) = None"
  shows "make w = (Inl (asset_error (files w) (architecture_png w)), w)"
  using assms
  by (simp add: make_simps slide_1_eq slide_2_fail)

lemma make_heal_missing:
  assumes "image_at (files w) (cover_png w) = Some ic"
    and "image_at (files w) (architecture_png w) = Some ia"
    and "image_at (files w) (ai_healing_png w) = None"
  shows "make w = (Inl (asset_error (files w) (ai_healing_png w)), w)"
  using assms
  by (simp add: make_simps slide_1_eq slide_2_eq slide_3_eq slide_4_eq slide_5_eq slide_6_eq slide_7_fail)

lemma make_built:
  assumes "image_at (files w) (cover_png w) = Some ic"
    and "image_at (files w) (architecture_png w) = Some ia"
    and "image_at (files w) (ai_healing_png w) = Some ih"
  shows "make w =
     (if writable w (OUT w)
      then (Inr (), w\<lparr>files := (files w)(OUT w \<mapsto> PptxFile (deck ic ia ih)),
                        stdout := stdout w @ [confirmation w]\<rparr>)
      else (Inl (OSError (OUT w)), w))"
  using assms
  by (simp add: make_simps slide_1_eq slide_2_eq slide_3_eq slide_4_eq slide_5_eq slide_6_eq
        slide_7_eq slide_8_eq slide_9_eq slide_10_eq save_def print_def deck_def confirmation_def)

section \<open>The outcome of \<open>make\<close>\<close>

lemma make_example: "make example_world = (Inr (), example_result)"
proof -
  have c: "image_at (files example_world) (cover_png example_world) = Some (Image 1600 900 72 72)"
    by (simp add: example_world_def cover_png_def ASSETS_def ROOT_def image_at_def)
  have a: "image_at (files example_world) (architecture_png example_world) = Some (Image 1200 800 72 72)"
    by (simp add: example_world_def architecture_png_def ASSETS_def ROOT_def image_at_def)
  have h: "image_at (files example_world) (ai_healing_png example_world) = Some (Image 1200 700 96 96)"
    by (simp add: example_world_def ai_healing_png_def ASSETS_def ROOT_def image_at_def)
  have w: "writable example_world (OUT example_world)"
    by (simp add: example_world_def)
  have l: "confirmation example_world = ''Created: /repo/presentation/Selenium_Automation_Framework_AI_Healing.pptx''"
    by (simp add: confirmation_def path_str_def OUT_def ROOT_def example_world_def)
  show ?thesis
    unfolding make_built [OF c a h] example_result_def example_deck_def l using w
    by (simp add: example_world_def)
qed

lemma make_success:
  assumes "make w = (Inr (), w')"
  shows "\<exists>ic ia ih.
           image_at (files w) (cover_png w) = Some ic
         \<and> image_at (files w) (architecture_png w) = Some ia
         \<and> image_at (files w) (ai_healing_png w) = Some ih
         \<and> writable w (OUT w)
         \<and> w' = w\<lparr>files := (files w)(OUT w \<mapsto> PptxFile (deck ic ia ih)),
                    stdout := stdout w @ [confirmation w]\<rparr>"
proof (cases "image_at (files w) (cover_png w)")
  case None
  with assms show ?thesis by (simp add: make_cover_missing)
next
  case c: (Some ic)
  show ?thesis
  proof (cases "image_at (files w) (architecture_png w)")
    case None
    with assms c show ?thesis by (simp add: make_arch_missing)
  next
    case a: (Some ia)
    show ?thesis
    proof (cases "image_at (files w) (ai_healing_png w)")
      case None
      with assms c a show ?thesis by (simp add: make_heal_missing)
    next
      case h: (Some ih)
      from assms show ?thesis
        unfolding make_built [OF c a h] using c a h
        by (auto split: if_splits)
    qed
  qed
qed

lemma make_failure:
  assumes "image_at (files w) (cover_png w) = None \<or> image_at (files w) (architecture_png w) = None
           \<or> image_at (files w) (ai_healing_png w) = None"
  shows "\<exists>p. p \<in> {cover_png w, architecture_png w, ai_healing_png w} \<and> image_at (files w) p = None
             \<and> make w = (Inl (asset_error (files w) p), w)"
proof (cases "image_at (files w) (cover_png w)")
  case None
  then show ?thesis using make_cover_missing [of w] by blast
next
  case c: (Some ic)
  show ?thesis
  proof (cases "image_at (files w) (architecture_png w)")
    case None
    then show ?thesis using make_arch_missing [OF c] by blast
  next
    case a: (Some ia)
    with assms c have "image_at (files w) (ai_healing_png w) = None" by simp
    then show ?thesis using make_heal_missing [OF c a] by blast
  qed
qed

lemma escape_plain: "plain t \<Longrightarrow> escape t = t"
  by (induction t) (simp_all add: plain_def escape_def escape_char_def is_control_def)

lemma split_breaks_plain: "plain t \<Longrightarrow> split_breaks t = [t]"
  by (induction t) (auto simp: plain_def)

lemma slide_title_dark:
  "slide_title (dark_slide (Box (title_box t sub) # rest)) = Some (escape t)"
  "slide_title (dark_slide (picture_shape img x y w h # Box (title_box t sub) # rest)) = Some (escape t)"
  by (simp_all add: slide_title_def boxes_def dark_slide_def frame_texts_def title_box_def
        styled_par_def par_text_def picture_shape_def)

lemma plain_titles: "list_all plain slide_titles"
  by (simp add: slide_titles_def plain_def)

lemma deck_titles: "map slide_title (slides (deck ic ia ih)) = map Some slide_titles"
proof -
  have "map slide_title (slides (deck ic ia ih)) = map (\<lambda>t. Some (escape t)) slide_titles"
    by (simp add: deck_def slide_titles_def Let_def shapes_1_def shapes_2_def shapes_3_def
          shapes_4_def shapes_5_def shapes_6_def shapes_7_def shapes_8_def shapes_9_def
          shapes_10_def slide_title_dark)
  also have "\<dots> = map Some slide_titles"
    using plain_titles by (simp add: list_all_iff escape_plain)
  finally show ?thesis .
qed

lemma deck_length: "length (slides (deck ic ia ih)) = 10"
  by (simp add: deck_def)

lemma asset_paths_not_out:
  "cover_png w \<noteq> OUT w" "architecture_png w \<noteq> OUT w" "ai_healing_png w \<noteq> OUT w"
  by (simp_all add: cover_png_def architecture_png_def ai_healing_png_def ASSETS_def OUT_def)

lemma asset_error_cases:
  "image_at fs p = None \<Longrightarrow> asset_error fs p = FileNotFoundError p \<or> asset_error fs p = UnidentifiedImageError p"
  by (simp add: asset_error_def split: option.splits)

lemma image_at_absent: "fs p = None \<Longrightarrow> image_at fs p = None"
  by (simp add: image_at_def)

lemma make_twice:
  assumes "make w = (Inr (), w')"
  shows "make w' = (Inr (), w'\<lparr>stdout := stdout w' @ [confirmation w]\<rparr>)"
proof -
  from make_success [OF assms] obtain ic ia ih where
    c: "image_at (files w) (cover_png w) = Some ic" and
    a: "image_at (files w) (architecture_png w) = Some ia" and
    h: "image_at (files w) (ai_healing_png w) = Some ih" and
    wr: "writable w (OUT w)" and
    w': "w' = w\<lparr>files := (files w)(OUT w \<mapsto> PptxFile (deck ic ia ih)),
                 stdout := stdout w @ [confirmation w]\<rparr>"
    by blast
  have p: "cover_png w' = cover_png w" "architecture_png w' = architecture_png w"
      "ai_healing_png w' = ai_healing_png w" "OUT w' = OUT w" "confirmation w' = confirmation w"
    by (simp_all add: w' cover_png_def architecture_png_def ai_healing_png_def ASSETS_def OUT_def
          ROOT_def confirmation_def)
  have c': "image_at (files w') (cover_png w') = Some ic"
    using c asset_paths_not_out(1) [of w] by (simp add: p) (simp add: w' image_at_def)
  have a': "image_at (files w') (architecture_png w') = Some ia"
    using a asset_paths_not_out(2) [of w] by (simp add: p) (simp add: w' image_at_def)
  have h': "image_at (files w') (ai_healing_png w') = Some ih"
    using h asset_paths_not_out(3) [of w] by (simp add: p) (simp add: w' image_at_def)
  have wr': "writable w' (OUT w')"
    using wr by (simp add: p) (simp add: w')
  show ?thesis
    unfolding make_built [OF c' a' h'] using wr' by (simp add: p) (simp add: w')
qed

section \<open>The text of the slides\<close>

lemma par_text_bullet_par:
  "plain t \<Longrightarrow> par_text (bullet_par font_sz t) = t"
  by (simp add: bullet_par_def par_text_def split_breaks_plain escape_plain new_run_def)

lemma frame_texts_title_box:
  "frame_texts (title_box t sub)
     = (if sub \<noteq> None \<and> sub \<noteq> Some [] then [escape t, escape (the sub)] else [escape t])"
  by (simp add: frame_texts_def title_box_def styled_par_def par_text_def)

lemma frame_texts_footer_box: "frame_texts (footer_box t) = [escape t]"
  by (simp add: frame_texts_def footer_box_def styled_par_def par_text_def)

lemma frame_texts_kpi_card_box:
  "frame_texts (kpi_card_box x y w h heading val) = [escape heading, escape val]"
  by (simp add: frame_texts_def kpi_card_box_def styled_par_def par_text_def)

lemma frame_texts_kpi_bar_box: "frame_texts (kpi_bar_box x y h accent) = [[]]"
  by (simp add: frame_texts_def kpi_bar_box_def new_paragraph_def par_text_def)

lemma frame_texts_flow_box_box: "frame_texts (flow_box_box x y w h t accent) = [escape t]"
  by (simp add: frame_texts_def flow_box_box_def styled_par_def par_text_def)

lemma frame_texts_bullets_box:
  "frame_texts (bullets_box x y w h (it # items) font_sz)
     = map (\<lambda>t. par_text (bullet_par font_sz t)) (it # items)"
  by (simp add: frame_texts_def bullets_box_def)

lemma slide_texts_dark:
  "slide_texts (dark_slide (Box b # rest)) = frame_texts b @ slide_texts (dark_slide rest)"
  "slide_texts (dark_slide (picture_shape img x y w h # rest)) = slide_texts (dark_slide rest)"
  "slide_texts (dark_slide (Connector c # rest)) = slide_texts (dark_slide rest)"
  "slide_texts (dark_slide []) = []"
  by (simp_all add: slide_texts_def boxes_def dark_slide_def picture_shape_def)

lemmas text_simps = slide_texts_dark frame_texts_title_box frame_texts_footer_box
  frame_texts_kpi_card_box frame_texts_kpi_bar_box frame_texts_flow_box_box frame_texts_bullets_box
  par_text_bullet_par escape_plain plain_def Let_def BULLET_def NBHYPHEN_def RARROW_def EMDASH_def
  NL_def

lemma texts_1: "set (passed_texts ! 0) \<subseteq> set (slide_texts (dark_slide (shapes_1 ic)))"
  by (simp add: passed_texts_def shapes_1_def text_simps)

lemma texts_2: "set (passed_texts ! 1) \<subseteq> set (slide_texts (dark_slide (shapes_2 ia)))"
  by (simp add: passed_texts_def shapes_2_def text_simps)

lemma texts_3: "set (passed_texts ! 2) \<subseteq> set (slide_texts (dark_slide shapes_3))"
  by (simp add: passed_texts_def shapes_3_def text_simps)

lemma texts_4: "set (passed_texts ! 3) \<subseteq> set (slide_texts (dark_slide (shapes_4 ia)))"
  by (simp add: passed_texts_def shapes_4_def text_simps)

lemma texts_5: "set (passed_texts ! 4) \<subseteq> set (slide_texts (dark_slide shapes_5))"
  by (simp add: passed_texts_def shapes_5_def text_simps)

lemma texts_6: "set (passed_texts ! 5) \<subseteq> set (slide_texts (dark_slide shapes_6))"
  by (simp add: passed_texts_def shapes_6_def text_simps)

lemma texts_7: "set (passed_texts ! 6) \<subseteq> set (slide_texts (dark_slide (shapes_7 ih)))"
  by (simp add: passed_texts_def shapes_7_def text_simps)

lemma texts_8: "set (passed_texts ! 7) \<subseteq> set (slide_texts (dark_slide shapes_8))"
  by (simp add: passed_texts_def shapes_8_def text_simps)

lemma texts_9: "set (passed_texts ! 8) \<subseteq> set (slide_texts (dark_slide shapes_9))"
  by (simp add: passed_texts_def shapes_9_def text_simps)

lemma texts_10: "set (passed_texts ! 9) \<subseteq> set (slide_texts (dark_slide shapes_10))"
  by (simp add: passed_texts_def shapes_10_def text_simps)

section \<open>Claims about the helper functions\<close>

lemma Inches_tenth: "Inches 0.10 = 91440"
  by code_simp

text \<open>
  C9. Called with an empty list of items, \<open>add_bullets\<close> still appends a text box to the
  slide and returns it; the loop body never runs, so the text frame is left as
  \<open>clear()\<close> made it: exactly one paragraph, and that paragraph is empty.
\<close>

theorem add_bullets_empty_items:
  "(let (box, slide) = add_bullets s x y w h [] font_sz
    in shapes slide = shapes s @ [Box box]
       \<and> box_kind box = TextBox
       \<and> sh_left box = x \<and> sh_top box = y \<and> sh_width box = w \<and> sh_height box = h
       \<and> length (paragraphs (text_frame box)) = 1
       \<and> map content (paragraphs (text_frame box)) = [[]]
       \<and> map par_text (paragraphs (text_frame box)) = [[]])"
  by (simp add: add_bullets_eq bullets_box_def new_paragraph_def par_text_def)

text \<open>
  C10. Every call of \<open>kpi_card\<close> appends exactly two shapes to the slide: the card, a
  rounded rectangle at the given position and of the given size, and after it the accent
  bar, a rectangle at the card's top-left corner, 0.10 inches (91440 EMU) wide and as high
  as the card, with a solid fill of the accent colour.
\<close>

theorem kpi_card_adds_card_and_bar:
  "(let slide = kpi_card s x y w h heading val accent;
        card = kpi_card_box x y w h heading val;
        bar = kpi_bar_box x y h accent
    in shapes slide = shapes s @ [Box card, Box bar]
       \<and> length (shapes slide) = length (shapes s) + 2
       \<and> box_kind card = AutoShape ROUNDED_RECTANGLE
       \<and> sh_left card = x \<and> sh_top card = y \<and> sh_width card = w \<and> sh_height card = h
       \<and> box_kind bar = AutoShape RECTANGLE
       \<and> sh_left bar = x \<and> sh_top bar = y
       \<and> sh_width bar = Inches 0.10 \<and> Inches 0.10 = 91440
       \<and> sh_height bar = h
       \<and> fill_type (box_fill bar) = Some SOLID \<and> fore_color (box_fill bar) = Some accent)"
  using Inches_tenth
  by (simp add: kpi_card_eq kpi_card_box_def kpi_bar_box_def solid_fill_def)

section \<open>Claims about \<open>make\<close>\<close>

text \<open>
  C1. The document \<open>make\<close> saves holds exactly ten slides, and their titles are those of
  the source in the source's order; the first is \<open>Selenium Automation Framework\<close>, the
  tenth \<open>Why this framework\<close>.
\<close>

theorem make_ten_titled_slides:
  assumes "make w = (Inr (), w')"
  shows "\<exists>prs. files w' (OUT w) = Some (PptxFile prs)
           \<and> length (slides prs) = 10
           \<and> map slide_title (slides prs) = map Some slide_titles
           \<and> slide_title (slides prs ! 0) = Some ''Selenium Automation Framework''
           \<and> slide_title (slides prs ! 9) = Some ''Why this framework''"
proof -
  from make_success [OF assms] obtain ic ia ih where
    w': "w' = w\<lparr>files := (files w)(OUT w \<mapsto> PptxFile (deck ic ia ih)),
                 stdout := stdout w @ [confirmation w]\<rparr>"
    by blast
  have t: "map slide_title (slides (deck ic ia ih)) = map Some slide_titles"
    by (rule deck_titles)
  have n: "length (slides (deck ic ia ih)) = 10"
    by (rule deck_length)
  have "slide_title (slides (deck ic ia ih) ! 0) = map slide_title (slides (deck ic ia ih)) ! 0"
    using n by simp
  then have t0: "slide_title (slides (deck ic ia ih) ! 0) = Some ''Selenium Automation Framework''"
    unfolding t by (simp add: slide_titles_def)
  have "slide_title (slides (deck ic ia ih) ! 9) = map slide_title (slides (deck ic ia ih)) ! 9"
    using n by simp
  then have t9: "slide_title (slides (deck ic ia ih) ! 9) = Some ''Why this framework''"
    unfolding t by (simp add: slide_titles_def)
  show ?thesis
    unfolding w' using t n t0 t9 by simp
qed

theorem make_ten_titled_slides_witness:
  "make example_world = (Inr (), example_result)
   \<and> (\<exists>prs. files example_result (OUT example_world) = Some (PptxFile prs)
           \<and> length (slides prs) = 10
           \<and> map slide_title (slides prs) = map Some slide_titles
           \<and> slide_title (slides prs ! 0) = Some ''Selenium Automation Framework''
           \<and> slide_title (slides prs ! 9) = Some ''Why this framework'')"
  by (rule conjI [OF make_example make_ten_titled_slides [OF make_example]])

text \<open>
  C8. On success \<open>make\<close> changes the world in two places only: the file at the fixed
  output path, which is the script's directory followed by
  \<open>Selenium_Automation_Framework_AI_Healing.pptx\<close>, now holds the document, and one line,
  \<open>Created:\<close> followed by that path, is appended to standard output. Every other file
  is as it was.
\<close>

theorem make_writes_one_file_prints_one_line:
  assumes "make w = (Inr (), w')"
  shows "\<exists>prs. w' = w\<lparr>files := (files w)(OUT w \<mapsto> PptxFile prs),
                        stdout := stdout w @ [''Created: '' @ path_str (OUT w)]\<rparr>
           \<and> OUT w = script_dir w @ [''Selenium_Automation_Framework_AI_Healing.pptx'']
           \<and> stdout w' = stdout w @ [''Created: '' @ path_str (OUT w)]
           \<and> (\<forall>p. p \<noteq> OUT w \<longrightarrow> files w' p = files w p)"
proof -
  from make_success [OF assms] obtain ic ia ih where
    w': "w' = w\<lparr>files := (files w)(OUT w \<mapsto> PptxFile (deck ic ia ih)),
                 stdout := stdout w @ [confirmation w]\<rparr>"
    by blast
  show ?thesis
    unfolding w' by (rule exI [of _ "deck ic ia ih"]) (simp add: confirmation_def OUT_def ROOT_def)
qed

theorem make_writes_one_file_prints_one_line_witness:
  "make example_world = (Inr (), example_result)
   \<and> (\<exists>prs. example_result = example_world\<lparr>files := (files example_world)(OUT example_world \<mapsto> PptxFile prs),
                        stdout := stdout example_world @ [''Created: '' @ path_str (OUT example_world)]\<rparr>
           \<and> OUT example_world = script_dir example_world @ [''Selenium_Automation_Framework_AI_Healing.pptx'']
           \<and> stdout example_result = stdout example_world @ [''Created: '' @ path_str (OUT example_world)]
           \<and> (\<forall>p. p \<noteq> OUT example_world \<longrightarrow> files example_result p = files example_world p))"
  by (rule conjI [OF make_example make_writes_one_file_prints_one_line [OF make_example]])

text \<open>
  C7. Every one of the ten slides of the saved document has a solid background of the
  colour \<open>BG\<close>, and the history of every slide begins with the two calls that set it;
  all calls after them add shapes, one call for every shape of the slide. So the
  background was set while the slide had no shapes.
\<close>

theorem make_background_first:
  assumes "make w = (Inr (), w')"
  shows "\<exists>prs. files w' (OUT w) = Some (PptxFile prs)
           \<and> length (slides prs) = 10
           \<and> (\<forall>s \<in> set (slides prs).
                 fill_type (background s) = Some SOLID
               \<and> fore_color (background s) = Some BG
               \<and> take 2 (calls s) = [BackgroundSolid, BackgroundColor BG]
               \<and> drop 2 (calls s) = replicate (length (shapes s)) AddShape)"
proof -
  from make_success [OF assms] obtain ic ia ih where
    w': "w' = w\<lparr>files := (files w)(OUT w \<mapsto> PptxFile (deck ic ia ih)),
                 stdout := stdout w @ [confirmation w]\<rparr>"
    by blast
  have "\<forall>s \<in> set (slides (deck ic ia ih)).
          fill_type (background s) = Some SOLID
        \<and> fore_color (background s) = Some BG
        \<and> take 2 (calls s) = [BackgroundSolid, BackgroundColor BG]
        \<and> drop 2 (calls s) = replicate (length (shapes s)) AddShape"
    by (auto simp: deck_def dark_slide_def solid_fill_def map_replicate_const)
  then show ?thesis
    unfolding w' using deck_length [of ic ia ih] by simp
qed

theorem make_background_first_witness:
  "make example_world = (Inr (), example_result)
   \<and> (\<exists>prs. files example_result (OUT example_world) = Some (PptxFile prs)
           \<and> length (slides prs) = 10
           \<and> (\<forall>s \<in> set (slides prs).
                 fill_type (background s) = Some SOLID
               \<and> fore_color (background s) = Some BG
               \<and> take 2 (calls s) = [BackgroundSolid, BackgroundColor BG]
               \<and> drop 2 (calls s) = replicate (length (shapes s)) AddShape))"
  by (rule conjI [OF make_example make_background_first [OF make_example]])

text \<open>
  C3. If one of the three picture files is absent, \<open>make\<close> raises the error of
  \<open>add_picture\<close> for one of the three paths, that is, while it builds the slides and
  before it reaches \<open>save\<close>; the world is left as it was, so no output file is written and
  nothing is printed.
\<close>

theorem make_fails_without_asset:
  assumes "files w (cover_png w) = None \<or> files w (architecture_png w) = None
           \<or> files w (ai_healing_png w) = None"
  shows "(\<exists>p. p \<in> {cover_png w, architecture_png w, ai_healing_png w}
              \<and> (fst (make w) = Inl (FileNotFoundError p) \<or> fst (make w) = Inl (UnidentifiedImageError p)))
         \<and> snd (make w) = w
         \<and> files (snd (make w)) (OUT w) = files w (OUT w)
         \<and> stdout (snd (make w)) = stdout w"
proof -
  from assms have "image_at (files w) (cover_png w) = None \<or> image_at (files w) (architecture_png w) = None
           \<or> image_at (files w) (ai_healing_png w) = None"
    by (auto simp: image_at_absent)
  from make_failure [OF this] obtain p where
    p: "p \<in> {cover_png w, architecture_png w, ai_healing_png w}" and
    n: "image_at (files w) p = None" and
    m: "make w = (Inl (asset_error (files w) p), w)"
    by blast
  from asset_error_cases [OF n] m
  have "fst (make w) = Inl (FileNotFoundError p) \<or> fst (make w) = Inl (UnidentifiedImageError p)"
    by auto
  with p m show ?thesis by auto
qed

theorem make_fails_without_asset_witness:
  "(files world_without_cover (cover_png world_without_cover) = None
    \<or> files world_without_cover (architecture_png world_without_cover) = None
    \<or> files world_without_cover (ai_healing_png world_without_cover) = None)
   \<and> (\<exists>p. p \<in> {cover_png world_without_cover, architecture_png world_without_cover,
                  ai_healing_png world_without_cover}
              \<and> (fst (make world_without_cover) = Inl (FileNotFoundError p)
                  \<or> fst (make world_without_cover) = Inl (UnidentifiedImageError p)))
   \<and> snd (make world_without_cover) = world_without_cover
   \<and> files (snd (make world_without_cover)) (OUT world_without_cover) = files world_without_cover (OUT world_without_cover)
   \<and> stdout (snd (make world_without_cover)) = stdout world_without_cover"
proof -
  have a: "files world_without_cover (cover_png world_without_cover) = None"
    by (simp add: world_without_cover_def example_world_def cover_png_def ASSETS_def ROOT_def)
  then have h: "files world_without_cover (cover_png world_without_cover) = None
    \<or> files world_without_cover (architecture_png world_without_cover) = None
    \<or> files world_without_cover (ai_healing_png world_without_cover) = None"
    by (rule disjI1)
  show ?thesis
    by (rule conjI [OF h make_fails_without_asset [OF h]])
qed

text \<open>
  C2. Two runs of \<open>make\<close> that find the same three picture files and both succeed save
  the same document: the same number of slides, and on every slide the same shapes in the
  same order with the same text. Nothing else of the world (other files, an output file
  left by an earlier run, earlier output) has an influence.
\<close>

theorem make_deterministic:
  assumes "make w1 = (Inr (), w1')" and "make w2 = (Inr (), w2')"
    and "files w1 (cover_png w1) = files w2 (cover_png w2)"
    and "files w1 (architecture_png w1) = files w2 (architecture_png w2)"
    and "files w1 (ai_healing_png w1) = files w2 (ai_healing_png w2)"
  shows "\<exists>p1 p2. files w1' (OUT w1) = Some (PptxFile p1) \<and> files w2' (OUT w2) = Some (PptxFile p2)
           \<and> p1 = p2
           \<and> length (slides p1) = length (slides p2)
           \<and> map shapes (slides p1) = map shapes (slides p2)
           \<and> map slide_texts (slides p1) = map slide_texts (slides p2)"
proof -
  from make_success [OF assms(1)] obtain ic ia ih where
    c: "image_at (files w1) (cover_png w1) = Some ic" and
    a: "image_at (files w1) (architecture_png w1) = Some ia" and
    h: "image_at (files w1) (ai_healing_png w1) = Some ih" and
    w1': "w1' = w1\<lparr>files := (files w1)(OUT w1 \<mapsto> PptxFile (deck ic ia ih)),
                 stdout := stdout w1 @ [confirmation w1]\<rparr>"
    by blast
  from make_success [OF assms(2)] obtain jc ja jh where
    c2: "image_at (files w2) (cover_png w2) = Some jc" and
    a2: "image_at (files w2) (architecture_png w2) = Some ja" and
    h2: "image_at (files w2) (ai_healing_png w2) = Some jh" and
    w2': "w2' = w2\<lparr>files := (files w2)(OUT w2 \<mapsto> PptxFile (deck jc ja jh)),
                 stdout := stdout w2 @ [confirmation w2]\<rparr>"
    by blast
  have "jc = ic" "ja = ia" "jh = ih"
    using c a h c2 a2 h2 assms(3-5) by (simp_all add: image_at_def)
  then show ?thesis
    unfolding w1' w2' by simp
qed

theorem make_deterministic_witness:
  "make example_world = (Inr (), example_result)
   \<and> make example_result = (Inr (), example_result\<lparr>stdout := stdout example_result @ [confirmation example_world]\<rparr>)
   \<and> files example_world (cover_png example_world) = files example_result (cover_png example_result)
   \<and> files example_world (architecture_png example_world) = files example_result (architecture_png example_result)
   \<and> files example_world (ai_healing_png example_world) = files example_result (ai_healing_png example_result)
   \<and> (\<exists>p1 p2. files example_result (OUT example_world) = Some (PptxFile p1)
           \<and> files (example_result\<lparr>stdout := stdout example_result @ [confirmation example_world]\<rparr>) (OUT example_result)
                = Some (PptxFile p2)
           \<and> p1 = p2
           \<and> length (slides p1) = length (slides p2)
           \<and> map shapes (slides p1) = map shapes (slides p2)
           \<and> map slide_texts (slides p1) = map slide_texts (slides p2))"
proof -
  note m1 = make_example
  note m2 = make_twice [OF make_example]
  have c: "files example_world (cover_png example_world) = files example_result (cover_png example_result)"
    by (simp add: example_result_def example_world_def cover_png_def ASSETS_def ROOT_def OUT_def)
  have a: "files example_world (architecture_png example_world) = files example_result (architecture_png example_result)"
    by (simp add: example_result_def example_world_def architecture_png_def ASSETS_def ROOT_def OUT_def)
  have h: "files example_world (ai_healing_png example_world) = files example_result (ai_healing_png example_result)"
    by (simp add: example_result_def example_world_def ai_healing_png_def ASSETS_def ROOT_def OUT_def)
  show ?thesis
    by (intro conjI m1 m2 c a h make_deterministic [OF m1 m2 c a h])
qed

lemma deck_nth:
  "slides (deck ic ia ih) ! 0 = dark_slide (shapes_1 ic)"
  "slides (deck ic ia ih) ! 1 = dark_slide (shapes_2 ia)"
  "slides (deck ic ia ih) ! 2 = dark_slide shapes_3"
  "slides (deck ic ia ih) ! 3 = dark_slide (shapes_4 ia)"
  "slides (deck ic ia ih) ! 4 = dark_slide shapes_5"
  "slides (deck ic ia ih) ! 5 = dark_slide shapes_6"
  "slides (deck ic ia ih) ! 6 = dark_slide (shapes_7 ih)"
  "slides (deck ic ia ih) ! 7 = dark_slide shapes_8"
  "slides (deck ic ia ih) ! 8 = dark_slide shapes_9"
  "slides (deck ic ia ih) ! 9 = dark_slide shapes_10"
  by (simp_all add: deck_def)

lemma less_ten_cases:
  "k < 10 \<Longrightarrow> k = 0 \<or> k = 1 \<or> k = 2 \<or> k = 3 \<or> k = 4 \<or> k = 5 \<or> k = 6 \<or> k = 7 \<or> k = 8 \<or> k = (9::nat)"
  by arith

lemma deck_texts:
  assumes "k < 10"
  shows "set (passed_texts ! k) \<subseteq> set (slide_texts (slides (deck ic ia ih) ! k))"
  using less_ten_cases [OF assms]
  by (elim disjE) (simp_all only: deck_nth texts_1 texts_2 texts_3 texts_4 texts_5 texts_6 texts_7
        texts_8 texts_9 texts_10)

lemma passed_texts_length: "length passed_texts = 10"
  by (simp add: passed_texts_def)

text \<open>
  C5. Every title, subtitle and bullet string that \<open>make\<close> passes for a slide is the text of
  a paragraph of that slide in the saved document, unchanged.
\<close>

theorem make_text_fidelity:
  assumes "make w = (Inr (), w')"
  shows "\<exists>prs. files w' (OUT w) = Some (PptxFile prs)
           \<and> length (slides prs) = length passed_texts
           \<and> (\<forall>k < length passed_texts. set (passed_texts ! k) \<subseteq> set (slide_texts (slides prs ! k)))"
proof -
  from make_success [OF assms] obtain ic ia ih where
    w': "w' = w\<lparr>files := (files w)(OUT w \<mapsto> PptxFile (deck ic ia ih)),
                 stdout := stdout w @ [confirmation w]\<rparr>"
    by blast
  show ?thesis
    unfolding w' by (simp add: passed_texts_length deck_length deck_texts)
qed

theorem make_text_fidelity_witness:
  "make example_world = (Inr (), example_result)
   \<and> (\<exists>prs. files example_result (OUT example_world) = Some (PptxFile prs)
           \<and> length (slides prs) = length passed_texts
           \<and> (\<forall>k < length passed_texts. set (passed_texts ! k) \<subseteq> set (slide_texts (slides prs ! k))))"
  by (rule conjI [OF make_example make_text_fidelity [OF make_example]])




















lemma title_paragraphs_dark:
  "title_paragraphs (dark_slide (Box (title_box t sub) # rest))
     = Some (if sub \<noteq> None \<and> sub \<noteq> Some [] then 2 else 1)"
  "title_paragraphs (dark_slide (picture_shape img x y w h # Box (title_box t sub) # rest))
     = Some (if sub \<noteq> None \<and> sub \<noteq> Some [] then 2 else 1)"
  by (simp_all add: title_paragraphs_def boxes_def dark_slide_def title_box_def picture_shape_def)

lemma deck_title_paragraphs:
  "map title_paragraphs (slides (deck ic ia ih)) = replicate 10 (Some 2)"
  by (simp add: deck_def Let_def shapes_1_def shapes_2_def shapes_3_def shapes_4_def
        shapes_5_def shapes_6_def shapes_7_def shapes_8_def shapes_9_def shapes_10_def
        title_paragraphs_dark BULLET_def numeral_eq_Suc)

section \<open>The pictures\<close>

text \<open>
  A picture placed with a width and a height keeps both; a picture placed with a width
  only keeps the width and takes the height the library derives from the image. The
  example: an image of 1200 by 800 pixels placed 5.5 inches wide is 3352800 EMU high.
\<close>

lemma scale_given_both: "w \<noteq> 0 \<Longrightarrow> h \<noteq> 0 \<Longrightarrow> scale img (Some w) (Some h) = (w, h)"
  by (simp add: scale_def given_def split: prod.splits)

lemma scale_given_width: "w \<noteq> 0 \<Longrightarrow> fst (scale img (Some w) None) = w"
  by (simp add: scale_def given_def Let_def split: prod.splits)

lemma scale_example: "scale (Image 1200 800 72 72) (Some (Inches 5.5)) None = (5029200, 3352800)"
  by code_simp

lemma Inches_pictures:
  "Inches 5.5 = 5029200" "Inches 6.1 = 5577840" "Inches 6.2 = 5669280"
  "Inches 13.333 = 12191695" "Inches 7.5 = 6858000"
  by code_simp+

lemma picture_shape_both:
  "w \<noteq> 0 \<Longrightarrow> h \<noteq> 0 \<Longrightarrow>
   picture_shape img x y (Some w) (Some h)
     = Picture \<lparr>pic_image = img, pic_left = x, pic_top = y, pic_width = w, pic_height = h\<rparr>"
  by (simp add: picture_shape_def scale_given_both)

lemma picture_shape_width:
  "w \<noteq> 0 \<Longrightarrow>
   picture_shape img x y (Some w) None
     = Picture \<lparr>pic_image = img, pic_left = x, pic_top = y, pic_width = w,
                pic_height = snd (scale img (Some w) None)\<rparr>"
  by (simp add: picture_shape_def scale_given_width)

lemma pictures_dark:
  "pictures (dark_slide (Box b # rest)) = pictures (dark_slide rest)"
  "pictures (dark_slide (Connector c # rest)) = pictures (dark_slide rest)"
  "pictures (dark_slide (Picture p # rest)) = p # pictures (dark_slide rest)"
  "pictures (dark_slide []) = []"
  by (simp_all add: pictures_def dark_slide_def)

lemma pictures_1:
  "pictures (dark_slide (shapes_1 ic))
     = [\<lparr>pic_image = ic, pic_left = Inches 0, pic_top = Inches 0,
         pic_width = Inches 13.333, pic_height = Inches 7.5\<rparr>]"
  unfolding shapes_1_def Let_def Inches_pictures
  by (simp add: picture_shape_both pictures_dark)

lemma pictures_2:
  "pictures (dark_slide (shapes_2 ia))
     = [\<lparr>pic_image = ia, pic_left = Inches 7.1, pic_top = Inches 2.2,
         pic_width = Inches 5.5, pic_height = snd (scale ia (Some (Inches 5.5)) None)\<rparr>]"
  unfolding shapes_2_def Let_def Inches_pictures
  by (simp add: picture_shape_width pictures_dark)

lemma pictures_4:
  "pictures (dark_slide (shapes_4 ia))
     = [\<lparr>pic_image = ia, pic_left = Inches 0.9, pic_top = Inches 2.2,
         pic_width = Inches 6.1, pic_height = snd (scale ia (Some (Inches 6.1)) None)\<rparr>]"
  unfolding shapes_4_def Let_def Inches_pictures
  by (simp add: picture_shape_width pictures_dark)

lemma pictures_7:
  "pictures (dark_slide (shapes_7 ih))
     = [\<lparr>pic_image = ih, pic_left = Inches 0.9, pic_top = Inches 2.2,
         pic_width = Inches 6.2, pic_height = snd (scale ih (Some (Inches 6.2)) None)\<rparr>]"
  unfolding shapes_7_def Let_def Inches_pictures
  by (simp add: picture_shape_width pictures_dark)

lemma pictures_none:
  "pictures (dark_slide shapes_3) = []" "pictures (dark_slide shapes_5) = []"
  "pictures (dark_slide shapes_6) = []" "pictures (dark_slide shapes_8) = []"
  "pictures (dark_slide shapes_9) = []" "pictures (dark_slide shapes_10) = []"
  by (simp_all add: shapes_3_def shapes_5_def shapes_6_def shapes_8_def shapes_9_def shapes_10_def
        Let_def pictures_dark)

lemma deck_pictures:
  "map pictures (slides (deck ic ia ih))
     = [[\<lparr>pic_image = ic, pic_left = Inches 0, pic_top = Inches 0,
          pic_width = Inches 13.333, pic_height = Inches 7.5\<rparr>],
        [\<lparr>pic_image = ia, pic_left = Inches 7.1, pic_top = Inches 2.2,
          pic_width = Inches 5.5, pic_height = snd (scale ia (Some (Inches 5.5)) None)\<rparr>],
        [],
        [\<lparr>pic_image = ia, pic_left = Inches 0.9, pic_top = Inches 2.2,
          pic_width = Inches 6.1, pic_height = snd (scale ia (Some (Inches 6.1)) None)\<rparr>],
        [], [],
        [\<lparr>pic_image = ih, pic_left = Inches 0.9, pic_top = Inches 2.2,
          pic_width = Inches 6.2, pic_height = snd (scale ih (Some (Inches 6.2)) None)\<rparr>],
        [], [], []]"
  by (simp add: deck_def pictures_1 pictures_2 pictures_4 pictures_7 pictures_none)

lemma blank_images_dark:
  "(dark_slide shs)\<lparr>shapes := map blank_image (shapes (dark_slide shs))\<rparr> = dark_slide (map blank_image shs)"
  by (simp add: dark_slide_def)

lemma blank_image_simps:
  "blank_image (Box b) = Box b"
  "blank_image (Connector c) = Connector c"
  "blank_image (Picture \<lparr>pic_image = img, pic_left = x, pic_top = y, pic_width = w, pic_height = h\<rparr>)
     = Picture \<lparr>pic_image = no_image, pic_left = x, pic_top = y, pic_width = w, pic_height = 0\<rparr>"
  by (simp_all add: blank_image_def)

lemma blank_shapes:
  "map blank_image (shapes_1 ic) = map blank_image (shapes_1 no_image)"
  "map blank_image (shapes_2 ia) = map blank_image (shapes_2 no_image)"
  "map blank_image (shapes_4 ia) = map blank_image (shapes_4 no_image)"
  "map blank_image (shapes_7 ih) = map blank_image (shapes_7 no_image)"
  unfolding shapes_1_def shapes_2_def shapes_4_def shapes_7_def Let_def Inches_pictures
  by (simp_all add: picture_shape_both picture_shape_width blank_image_simps)

lemma deck_blank_images:
  "blank_images (deck ic ia ih) = blank_images (deck no_image no_image no_image)"
  by (simp add: blank_images_def deck_def blank_images_dark blank_shapes(1) [of ic]
        blank_shapes(2) [of ia] blank_shapes(3) [of ia] blank_shapes(4) [of ih])

lemma bullets_box_text_frame:
  "text_frame (bullets_box x y w h items font_sz) = bullets_frame font_sz items"
  by (simp add: bullets_box_def)

lemma bullets_paragraphs:
  "paragraphs (bullets_frame font_sz items)
     = (if items = [] then [new_paragraph None] else map (bullet_par font_sz) items)"
  by (cases items) simp_all

text \<open>
  C6 as stated does not hold: the source has conditionals. \<open>add_title\<close> adds the subtitle
  paragraph only if the subtitle is neither \<open>None\<close> nor empty, so the title block has two
  paragraphs for the subtitle \<open>S\<close> and one for the empty subtitle; \<open>add_bullets\<close> writes its
  first item into the paragraph that is there and adds a paragraph for each later item.
\<close>

theorem helpers_branch_on_arguments:
  "title_paragraphs (add_title new_slide ''T'' (Some ''S'')) = Some 2
   \<and> title_paragraphs (add_title new_slide ''T'' (Some [])) = Some 1
   \<and> title_paragraphs (add_title new_slide ''T'' None) = Some 1
   \<and> length (paragraphs (text_frame (fst (add_bullets new_slide 0 0 0 0 [] 20)))) = 1
   \<and> length (paragraphs (text_frame (fst (add_bullets new_slide 0 0 0 0 [''a''] 20)))) = 1
   \<and> length (paragraphs (text_frame (fst (add_bullets new_slide 0 0 0 0 [''a'', ''b''] 20)))) = 2"
  by (simp add: add_title_eq add_bullets_eq new_slide_def append_shape_record title_paragraphs_def
        boxes_def title_box_def bullets_box_def)

text \<open>
  C6, amended. The conditionals are in the helper functions. \<open>add_title\<close> adds one block
  whose paragraphs are the title and, exactly when the subtitle is neither \<open>None\<close> nor
  empty, the subtitle. \<open>add_bullets\<close> leaves the one empty paragraph of the cleared frame
  when there is no item; otherwise the first item is written into that paragraph and
  every later item into a new one, so that the paragraphs are the items in order, and read
  back as the items when these have no control characters. The content of every slide
  \<open>make\<close> builds is unconditional all the same: whenever \<open>make\<close> succeeds, the three pictures
  are files of the input, the saved document has exactly the pictures listed, each one
  holding its image at the position and with the width the source gives, the cover with
  the height the source gives and every other one with the height the library derives from
  its image; apart from the images and the heights of its pictures it is one fixed
  document; and in each of its ten slides the title block has both paragraphs.
\<close>

theorem make_content_fixed:
  "(make w = (Inr (), w') \<longrightarrow>
      (\<exists>prs ic ia ih.
            files w (cover_png w) = Some (ImageFile ic)
          \<and> files w (architecture_png w) = Some (ImageFile ia)
          \<and> files w (ai_healing_png w) = Some (ImageFile ih)
          \<and> files w' (OUT w) = Some (PptxFile prs)
          \<and> map pictures (slides prs)
              = [[\<lparr>pic_image = ic, pic_left = Inches 0, pic_top = Inches 0,
                   pic_width = Inches 13.333, pic_height = Inches 7.5\<rparr>],
                 [\<lparr>pic_image = ia, pic_left = Inches 7.1, pic_top = Inches 2.2,
                   pic_width = Inches 5.5, pic_height = snd (scale ia (Some (Inches 5.5)) None)\<rparr>],
                 [],
                 [\<lparr>pic_image = ia, pic_left = Inches 0.9, pic_top = Inches 2.2,
                   pic_width = Inches 6.1, pic_height = snd (scale ia (Some (Inches 6.1)) None)\<rparr>],
                 [], [],
                 [\<lparr>pic_image = ih, pic_left = Inches 0.9, pic_top = Inches 2.2,
                   pic_width = Inches 6.2, pic_height = snd (scale ih (Some (Inches 6.2)) None)\<rparr>],
                 [], [], []]
          \<and> blank_images prs = blank_images (deck no_image no_image no_image)
          \<and> map title_paragraphs (slides prs) = replicate 10 (Some 2)))
   \<and> (\<exists>b. shapes (add_title s t sub) = shapes s @ [Box b]
          \<and> length (paragraphs (text_frame b)) = (if sub \<noteq> None \<and> sub \<noteq> Some [] then 2 else 1)
          \<and> frame_texts b = (if sub \<noteq> None \<and> sub \<noteq> Some [] then [escape t, escape (the sub)] else [escape t]))
   \<and> paragraphs (text_frame (fst (add_bullets s x y wd h items font_sz)))
        = (if items = [] then [new_paragraph None] else map (bullet_par font_sz) items)
   \<and> length (paragraphs (text_frame (fst (add_bullets s x y wd h items font_sz)))) = max 1 (length items)
   \<and> (list_all plain items \<longrightarrow>
        frame_texts (fst (add_bullets s x y wd h items font_sz)) = (if items = [] then [[]] else items))"
proof (intro conjI impI)
  assume "make w = (Inr (), w')"
  from make_success [OF this] obtain ic ia ih where
    c: "image_at (files w) (cover_png w) = Some ic" and
    a: "image_at (files w) (architecture_png w) = Some ia" and
    h: "image_at (files w) (ai_healing_png w) = Some ih" and
    w': "w' = w\<lparr>files := (files w)(OUT w \<mapsto> PptxFile (deck ic ia ih)),
                 stdout := stdout w @ [confirmation w]\<rparr>"
    by blast
  have f: "files w' (OUT w) = Some (PptxFile (deck ic ia ih))"
    unfolding w' by simp
  show "\<exists>prs ic ia ih.
            files w (cover_png w) = Some (ImageFile ic)
          \<and> files w (architecture_png w) = Some (ImageFile ia)
          \<and> files w (ai_healing_png w) = Some (ImageFile ih)
          \<and> files w' (OUT w) = Some (PptxFile prs)
          \<and> map pictures (slides prs)
              = [[\<lparr>pic_image = ic, pic_left = Inches 0, pic_top = Inches 0,
                   pic_width = Inches 13.333, pic_height = Inches 7.5\<rparr>],
                 [\<lparr>pic_image = ia, pic_left = Inches 7.1, pic_top = Inches 2.2,
                   pic_width = Inches 5.5, pic_height = snd (scale ia (Some (Inches 5.5)) None)\<rparr>],
                 [],
                 [\<lparr>pic_image = ia, pic_left = Inches 0.9, pic_top = Inches 2.2,
                   pic_width = Inches 6.1, pic_height = snd (scale ia (Some (Inches 6.1)) None)\<rparr>],
                 [], [],
                 [\<lparr>pic_image = ih, pic_left = Inches 0.9, pic_top = Inches 2.2,
                   pic_width = Inches 6.2, pic_height = snd (scale ih (Some (Inches 6.2)) None)\<rparr>],
                 [], [], []]
          \<and> blank_images prs = blank_images (deck no_image no_image no_image)
          \<and> map title_paragraphs (slides prs) = replicate 10 (Some 2)"
    apply (rule exI [of _ "deck ic ia ih"])
    apply (rule exI [of _ ic])
    apply (rule exI [of _ ia])
    apply (rule exI [of _ ih])
    apply (intro conjI)
          apply (rule conjunct1 [OF image_at_Some [OF c]])
         apply (rule conjunct1 [OF image_at_Some [OF a]])
        apply (rule conjunct1 [OF image_at_Some [OF h]])
       apply (rule f)
      apply (rule deck_pictures)
     apply (rule deck_blank_images)
    apply (rule deck_title_paragraphs)
    done
next
  show "\<exists>b. shapes (add_title s t sub) = shapes s @ [Box b]
          \<and> length (paragraphs (text_frame b)) = (if sub \<noteq> None \<and> sub \<noteq> Some [] then 2 else 1)
          \<and> frame_texts b = (if sub \<noteq> None \<and> sub \<noteq> Some [] then [escape t, escape (the sub)] else [escape t])"
    by (rule exI [of _ "title_box t sub"])
       (simp add: add_title_eq frame_texts_title_box append_shape_record, simp add: title_box_def)
next
  show "paragraphs (text_frame (fst (add_bullets s x y wd h items font_sz)))
        = (if items = [] then [new_paragraph None] else map (bullet_par font_sz) items)"
    by (simp only: add_bullets_eq fst_conv bullets_box_text_frame bullets_paragraphs)
next
  show "length (paragraphs (text_frame (fst (add_bullets s x y wd h items font_sz)))) = max 1 (length items)"
    by (cases items) (simp_all add: add_bullets_eq bullets_box_def)
next
  assume "list_all plain items"
  then have "map (\<lambda>t. par_text (bullet_par font_sz t)) items = items"
    by (induction items) (simp_all add: par_text_bullet_par)
  then show "frame_texts (fst (add_bullets s x y wd h items font_sz)) = (if items = [] then [[]] else items)"
    by (simp add: frame_texts_def add_bullets_eq bullets_box_text_frame bullets_paragraphs
          new_paragraph_def par_text_def comp_def)
qed

theorem make_content_fixed_witness:
  "make example_world = (Inr (), example_result)
   \<and> (\<exists>prs ic ia ih.
            files example_world (cover_png example_world) = Some (ImageFile ic)
          \<and> files example_world (architecture_png example_world) = Some (ImageFile ia)
          \<and> files example_world (ai_healing_png example_world) = Some (ImageFile ih)
          \<and> files example_result (OUT example_world) = Some (PptxFile prs)
          \<and> map pictures (slides prs)
              = [[\<lparr>pic_image = ic, pic_left = Inches 0, pic_top = Inches 0,
                   pic_width = Inches 13.333, pic_height = Inches 7.5\<rparr>],
                 [\<lparr>pic_image = ia, pic_left = Inches 7.1, pic_top = Inches 2.2,
                   pic_width = Inches 5.5, pic_height = snd (scale ia (Some (Inches 5.5)) None)\<rparr>],
                 [],
                 [\<lparr>pic_image = ia, pic_left = Inches 0.9, pic_top = Inches 2.2,
                   pic_width = Inches 6.1, pic_height = snd (scale ia (Some (Inches 6.1)) None)\<rparr>],
                 [], [],
                 [\<lparr>pic_image = ih, pic_left = Inches 0.9, pic_top = Inches 2.2,
                   pic_width = Inches 6.2, pic_height = snd (scale ih (Some (Inches 6.2)) None)\<rparr>],
                 [], [], []]
          \<and> blank_images prs = blank_images (deck no_image no_image no_image)
          \<and> map title_paragraphs (slides prs) = replicate 10 (Some 2))
   \<and> list_all plain [''a'', ''b'']
   \<and> frame_texts (fst (add_bullets new_slide 0 0 0 0 [''a'', ''b''] 20)) = [''a'', ''b'']"
proof -
  note inst = make_content_fixed [of example_world example_result new_slide "[]" None 0 0 0 0
      "[''a'', ''b'']" 20]
  have p: "list_all plain [''a'', ''b'']"
    by (simp add: plain_def)
  from inst make_example p show ?thesis
    by simp
qed

end
